theory Spec2Isabelle
  imports Complex_Main
begin

section \<open>Common vocabulary\<close>

text \<open>
  An identifier is an ObjectId, a number of 12 bytes; two identifiers are the same user exactly
  when they are equal. Dates are milliseconds since the epoch. The HTTP status of a response
  is its error kind: 400 is \<open>ValidationError\<close>, 404 \<open>NotFound\<close>, 409 \<open>Conflict\<close>, 500
  \<open>InternalError\<close>. The fields that the store maintains by itself (\<^verbatim>\<open>_id\<close>,
  \<^verbatim>\<open>createdAt\<close>, \<^verbatim>\<open>updatedAt\<close>, \<^verbatim>\<open>__v\<close>) are left out of the documents.
\<close>

type_synonym oid = nat
type_synonym time = int

datatype error = ValidationError | NotFound | Conflict | InternalError

text \<open>A collection of documents, looked up by identifier (\<^verbatim>\<open>Model.findById\<close>).\<close>

type_synonym 'd store = "oid \<Rightarrow> 'd option"

section \<open>ObjectIds and their spellings\<close>

text \<open>
  A request body carries the identifier of the acting user as a string, \<^verbatim>\<open>userId\<close>.
  \<^verbatim>\<open>ObjectId.toString()\<close> spells an identifier with 24 hexadecimal digits, the letters in
  lower case. \<^verbatim>\<open>new ObjectId(s)\<close> reads a string of 24 hexadecimal digits with letters of
  either case. What it makes of any other string depends on the version of the library
  (older versions read every string of 12 bytes as an identifier, newer ones reject it); this
  is the parameter \<open>other\<close> of the definitions below, \<open>None\<close> where the string is
  rejected. \<^verbatim>\<open>ObjectId.isValid(s)\<close> holds exactly when \<^verbatim>\<open>new ObjectId(s)\<close> does not throw.
\<close>

definition hex_digit :: "char \<Rightarrow> nat option" where
  "hex_digit c =
     map_of (zip ''0123456789abcdefABCDEF''
               [0, 1, 2, 3, 4, 5, 6, 7, 8, 9, 10, 11, 12, 13, 14, 15, 10, 11, 12, 13, 14, 15]) c"

definition hex_char :: "nat \<Rightarrow> char" where
  "hex_char d = ''0123456789abcdef'' ! d"

definition hex_value :: "string \<Rightarrow> nat" where
  "hex_value s =
     foldl (\<lambda>acc c. 16 * acc + (case hex_digit c of None \<Rightarrow> 0 | Some d \<Rightarrow> d)) 0 s"

function hex_digits :: "nat \<Rightarrow> string" where
  "hex_digits n = (if n < 16 then [hex_char n] else hex_digits (n div 16) @ [hex_char (n mod 16)])"
  by pat_completeness auto
termination
  by (relation "measure id") auto

declare hex_digits.simps [simp del]

definition ObjectId_toString :: "oid \<Rightarrow> string" where
  "ObjectId_toString objectId =
     replicate (24 - length (hex_digits objectId)) (CHR ''0'') @ hex_digits objectId"

definition is_hex24 :: "string \<Rightarrow> bool" where
  "is_hex24 s = (length s = 24 \<and> list_all (\<lambda>c. hex_digit c \<noteq> None) s)"

definition ObjectId_of_string :: "(string \<Rightarrow> oid option) \<Rightarrow> string \<Rightarrow> oid option" where
  "ObjectId_of_string other s = (if is_hex24 s then Some (hex_value s) else other s)"

definition ObjectId_isValid :: "(string \<Rightarrow> oid option) \<Rightarrow> string \<Rightarrow> bool" where
  "ObjectId_isValid other s = (ObjectId_of_string other s \<noteq> None)"

text \<open>
  \<^verbatim>\<open>validateRequiredObjectId\<close>: \<^verbatim>\<open>notEmpty()\<close>, then \<^verbatim>\<open>ObjectId.isValid(value)\<close>; the
  validated handlers repeat the test (\<^verbatim>\<open>!userId || !isValid(userId)\<close>) themselves.
\<close>

definition validateRequiredObjectId :: "(string \<Rightarrow> oid option) \<Rightarrow> string \<Rightarrow> bool" where
  "validateRequiredObjectId other value = (value \<noteq> [] \<and> ObjectId_isValid other value)"

text \<open>
  \<^verbatim>\<open>array.includes(userId)\<close> on an array of identifiers, given the string of the body:
  the string is compared with the spelling of each element
  (\<^verbatim>\<open>obj == this[i]\<close>), as \<^verbatim>\<open>array.some(id => id.toString() === userId)\<close> does.
\<close>

definition includes_string :: "oid list \<Rightarrow> string \<Rightarrow> bool" where
  "includes_string array userId = list_ex (\<lambda>elem. ObjectId_toString elem = userId) array"

section \<open>Pagination of the list routes\<close>

text \<open>
  A query parameter that passes \<^verbatim>\<open>isInt\<close> is a string of decimal digits; it is given here
  as the integer it denotes, whatever its size. The sanitizer \<^verbatim>\<open>toInt()\<close> makes a number
  of it, and a number is a double: the integer nearest to the one denoted that 53 bits and
  an exponent can hold, ties to the even one, or Infinity.
\<close>

function dbl_exp :: "nat \<Rightarrow> nat" where
  "dbl_exp n = (if n < 2 ^ 53 then 0 else Suc (dbl_exp (n div 2)))"
  by pat_completeness auto
termination
  by (relation "measure id") auto

declare dbl_exp.simps [simp del]

definition round_nat :: "nat \<Rightarrow> nat" where
  "round_nat n =
     (let e = dbl_exp n; q = n div 2 ^ e; r = n mod 2 ^ e
      in (if 2 * r > 2 ^ e \<or> (2 * r = 2 ^ e \<and> odd q) then q + 1 else q) * 2 ^ e)"

definition round_int :: "int \<Rightarrow> int" where
  "round_int n = sgn n * int (round_nat (nat \<bar>n\<bar>))"

text \<open>\<open>None\<close> is an infinity.\<close>

definition toInt :: "int \<Rightarrow> int option" where
  "toInt n = (if \<bar>round_int n\<bar> < 2 ^ 1024 then Some (round_int n) else None)"

text \<open>
  The handler then calls \<^verbatim>\<open>parseInt\<close> on that number, which spells the number and parses
  the spelling. A number below \<open>10 ^ 21\<close> is spelt with all its digits and parses to itself.
  A number from \<open>10 ^ 21\<close> on is spelt with an exponent (\<^verbatim>\<open>1e+21\<close>, \<^verbatim>\<open>1.2e+25\<close>), of which
  \<^verbatim>\<open>parseInt\<close> reads the first digit only; Infinity parses to NaN. The spelling of a number
  is the shortest decimal that rounds to it: its first digit is that of the number itself
  unless a one-digit decimal lies within the number's rounding interval.
\<close>

function digits10 :: "nat \<Rightarrow> nat" where
  "digits10 n = (if n < 10 then 1 else Suc (digits10 (n div 10)))"
  by pat_completeness auto
termination
  by (relation "measure id") auto

declare digits10.simps [simp del]

definition toString_first_digit :: "nat \<Rightarrow> nat" where
  "toString_first_digit d =
     (let e = dbl_exp d; q = d div 2 ^ e;
          lo = d - (if q = 2 ^ 52 then 2 ^ (e - 2) else 2 ^ (e - 1));
          hi = d + 2 ^ (e - 1);
          p = 10 ^ (digits10 d - 1);
          m1 = (d div p) * p;
          m2 = m1 + p;
          inside = (\<lambda>m. if even q then lo \<le> m \<and> m \<le> hi else lo < m \<and> m < hi)
      in if \<not> inside m1 \<and> inside m2 then (if d div p = 9 then 1 else d div p + 1)
         else d div p)"

text \<open>\<^verbatim>\<open>parseInt(x)\<close> for a number \<open>x\<close>; \<open>None\<close> is NaN.\<close>

definition parseInt_Number :: "int option \<Rightarrow> int option" where
  "parseInt_Number x =
     (case x of
        None \<Rightarrow> None
      | Some v \<Rightarrow>
          Some (if \<bar>v\<bar> < 10 ^ 21 then v else sgn v * int (toString_first_digit (nat \<bar>v\<bar>))))"

text \<open>
  \<^verbatim>\<open>parseInt(req.query.page as string) || 1\<close>, on the sanitized query: an absent parameter
  parses to NaN, and NaN and 0 are both falsy, so both select the default.
\<close>

definition parseInt_or :: "int option \<Rightarrow> int \<Rightarrow> int" where
  "parseInt_or q d =
     (case q of
        None \<Rightarrow> d
      | Some n \<Rightarrow>
          (case parseInt_Number (toInt n) of
             None \<Rightarrow> d
           | Some v \<Rightarrow> if v = 0 then d else v))"


text \<open>
  \<^verbatim>\<open>Math.ceil(total / limit)\<close>: the division is the division of numbers, not of integers.
  For a count below \<open>2 ^ 53\<close> and a limit of at most 100 the rounding of the quotient does
  not reach the next integer, and the ceiling is that of the exact quotient.
\<close>

definition Math_ceil_div :: "int \<Rightarrow> int \<Rightarrow> int" where
  "Math_ceil_div n l = \<lceil>real_of_int n / real_of_int l\<rceil>"




section \<open>Strings\<close>

text \<open>
  A string is a list of characters and its \<^verbatim>\<open>length\<close> the number of them.
  \<^verbatim>\<open>trim\<close> (the schema option \<^verbatim>\<open>trim: true\<close> and the validators' \<^verbatim>\<open>.trim()\<close>)
  drops the white space at both ends: tab, line feed, vertical tab, form feed, carriage
  return, space and no-break space.
\<close>

definition is_space :: "char \<Rightarrow> bool" where
  "is_space c = (c \<in> set [CHR 0x09, CHR 0x0A, CHR 0x0B, CHR 0x0C, CHR 0x0D, CHR 0x20, CHR 0xA0])"

definition trim :: "string \<Rightarrow> string" where
  "trim s = rev (dropWhile is_space (rev (dropWhile is_space s)))"

text \<open>A string field of a request body that is absent reads as the empty string.\<close>

definition field_string :: "string option \<Rightarrow> string" where
  "field_string f = (case f of None \<Rightarrow> [] | Some s \<Rightarrow> s)"

section \<open>Clubs\<close>

record club =
  name :: string
  description :: "string option"
  members :: "oid list"
  officers :: "oid list"

text \<open>
  The validator of each element of \<^verbatim>\<open>officers\<close>:
  \<^verbatim>\<open>return this.members.includes(officerId)\<close>.
\<close>

definition ClubSchema_officers_validator :: "club \<Rightarrow> oid \<Rightarrow> bool" where
  "ClubSchema_officers_validator this officerId = (officerId \<in> set (members this))"

text \<open>
  Validation of a club document by \<^verbatim>\<open>ClubSchema\<close>: \<^verbatim>\<open>name\<close> required (a missing or
  empty name fails) and at most 100 characters, \<^verbatim>\<open>description\<close> at most 1000, every
  officer a member.
\<close>

definition ClubSchema_validate :: "club \<Rightarrow> bool" where
  "ClubSchema_validate c =
     (name c \<noteq> [] \<and> length (name c) \<le> 100 \<and>
      (case club.description c of None \<Rightarrow> True | Some d \<Rightarrow> length d \<le> 1000) \<and>
      list_all (ClubSchema_officers_validator c) (officers c))"

text \<open>
  \<^verbatim>\<open>this.save()\<close> validates the document and stores it; a document that fails
  validation is rejected with a ValidationError and nothing is stored.
\<close>

definition Club_save :: "club \<Rightarrow> error + club" where
  "Club_save c = (if ClubSchema_validate c then Inr c else Inl ValidationError)"

definition addMember :: "club \<Rightarrow> oid \<Rightarrow> error + club" where
  "addMember this userId =
     Club_save (if userId \<notin> set (members this)
                then this\<lparr>members := members this @ [userId]\<rparr> else this)"

definition removeMember :: "club \<Rightarrow> oid \<Rightarrow> error + club" where
  "removeMember this userId =
     Club_save (this\<lparr>members := filter (\<lambda>memberId. memberId \<noteq> userId) (members this),
                     officers := filter (\<lambda>officerId. officerId \<noteq> userId) (officers this)\<rparr>)"

definition addOfficer :: "club \<Rightarrow> oid \<Rightarrow> error + club" where
  "addOfficer this userId =
     (let this1 = (if userId \<notin> set (members this)
                   then this\<lparr>members := members this @ [userId]\<rparr> else this);
          this2 = (if userId \<notin> set (officers this1)
                   then this1\<lparr>officers := officers this1 @ [userId]\<rparr> else this1)
      in Club_save this2)"

definition removeOfficer :: "club \<Rightarrow> oid \<Rightarrow> error + club" where
  "removeOfficer this userId =
     Club_save (this\<lparr>officers := filter (\<lambda>officerId. officerId \<noteq> userId) (officers this)\<rparr>)"

subsection \<open>Creation\<close>

record club_body =
  body_name :: "string option"
  body_description :: "string option"
  body_members :: "oid list"
  body_officers :: "oid list"

text \<open>
  \<^verbatim>\<open>new Club(req.body)\<close>: the name is trimmed by the schema's setter; a missing name reads
  as the empty one, which \<^verbatim>\<open>required\<close> rejects alike; missing arrays are empty.
\<close>

definition new_Club :: "club_body \<Rightarrow> club" where
  "new_Club body =
     \<lparr>name = trim (field_string (body_name body)),
      club.description = body_description body,
      members = body_members body,
      officers = body_officers body\<rparr>"

text \<open>
  \<^verbatim>\<open>POST /api/clubs\<close> of \<^verbatim>\<open>src/api/clubs.ts\<close>: \<^verbatim>\<open>new Club(req.body)\<close>, \<^verbatim>\<open>save()\<close>.
  \<open>existing\<close> holds the names of the stored clubs: the unique index on \<^verbatim>\<open>name\<close>
  answers a duplicate with error code 11000, reported as 409.
\<close>

definition createClub :: "string list \<Rightarrow> club_body \<Rightarrow> error + club" where
  "createClub existing body =
     (case Club_save (new_Club body) of
        Inl e \<Rightarrow> Inl ValidationError
      | Inr c \<Rightarrow> if name c \<in> set existing then Inl Conflict else Inr c)"

text \<open>
  \<^verbatim>\<open>validateCreateClub\<close>, for the fields of the schema: name 3 to 100 characters after
  trimming, description 10 to 1000 after trimming; both sanitizers write the trimmed value
  back into the body. Identifiers are well formed by their type.
\<close>

definition validateCreateClub :: "club_body \<Rightarrow> bool" where
  "validateCreateClub body =
     (3 \<le> length (trim (field_string (body_name body))) \<and>
      length (trim (field_string (body_name body))) \<le> 100 \<and>
      10 \<le> length (trim (field_string (body_description body))) \<and>
      length (trim (field_string (body_description body))) \<le> 1000)"

definition createClub_validated :: "string list \<Rightarrow> club_body \<Rightarrow> error + club" where
  "createClub_validated existing body =
     (if \<not> validateCreateClub body then Inl ValidationError
      else createClub existing
             (body\<lparr>body_name := Some (trim (field_string (body_name body))),
                   body_description := Some (trim (field_string (body_description body)))\<rparr>))"

subsection \<open>Routes\<close>

text \<open>
  \<^verbatim>\<open>DELETE /api/clubs/:id/leave\<close> of the validated router, \<open>userId\<close> the string of the
  body. The membership test is \<^verbatim>\<open>memberId.toString() === userId\<close>; the method is called
  with \<^verbatim>\<open>new ObjectId(userId)\<close>. The answer of a success is
  \<^verbatim>\<open>{memberCount, isMember}\<close>. A rejected \<^verbatim>\<open>save()\<close> is caught and answered 500.
\<close>

definition leaveClub_route ::
  "(string \<Rightarrow> oid option) \<Rightarrow> club store \<Rightarrow> oid \<Rightarrow> string \<Rightarrow> (error + nat \<times> bool) \<times> club store" where
  "leaveClub_route other db clubId userId =
     (if \<not> validateRequiredObjectId other userId then (Inl ValidationError, db)
      else (case db clubId of
              None \<Rightarrow> (Inl NotFound, db)
            | Some club \<Rightarrow>
                if \<not> list_ex (\<lambda>memberId. ObjectId_toString memberId = userId) (members club)
                then (Inl NotFound, db)
                else (case ObjectId_of_string other userId of
                        None \<Rightarrow> (Inl InternalError, db)
                      | Some user \<Rightarrow>
                          (case removeMember club user of
                             Inl e \<Rightarrow> (Inl InternalError, db)
                           | Inr club' \<Rightarrow>
                               (Inr (length (members club'), False), db(clubId \<mapsto> club'))))))"

text \<open>
  \<^verbatim>\<open>DELETE /api/clubs/:id/leave\<close> of \<^verbatim>\<open>src/api/clubs.ts\<close>: no membership check; the
  answer of a success is \<^verbatim>\<open>{message, memberCount}\<close>. The handler passes the string of the
  body to \<^verbatim>\<open>removeMember\<close>, whose \<^verbatim>\<open>equals\<close> reads the string as an identifier; the user
  is given here as the identifier that the string spells.
\<close>

definition leaveClub_api :: "club store \<Rightarrow> oid \<Rightarrow> oid \<Rightarrow> (error + nat) \<times> club store" where
  "leaveClub_api db clubId userId =
     (case db clubId of
        None \<Rightarrow> (Inl NotFound, db)
      | Some club \<Rightarrow>
          (case removeMember club userId of
             Inl e \<Rightarrow> (Inl InternalError, db)
           | Inr club' \<Rightarrow> (Inr (length (members club')), db(clubId \<mapsto> club'))))"

text \<open>
  \<^verbatim>\<open>POST /api/clubs/:id/officers\<close> of the validated router, \<open>userId\<close> the string of the
  body. The test for an officer is \<^verbatim>\<open>officerId.toString() === userId\<close>; the method is
  called with \<^verbatim>\<open>new ObjectId(userId)\<close>. The answer of a success is
  \<^verbatim>\<open>{officerCount, memberCount}\<close>.
\<close>

definition addOfficer_route ::
  "(string \<Rightarrow> oid option) \<Rightarrow> club store \<Rightarrow> oid \<Rightarrow> string \<Rightarrow> (error + nat \<times> nat) \<times> club store" where
  "addOfficer_route other db clubId userId =
     (if \<not> validateRequiredObjectId other userId then (Inl ValidationError, db)
      else (case db clubId of
              None \<Rightarrow> (Inl NotFound, db)
            | Some club \<Rightarrow>
                if list_ex (\<lambda>officerId. ObjectId_toString officerId = userId) (officers club)
                then (Inl Conflict, db)
                else (case ObjectId_of_string other userId of
                        None \<Rightarrow> (Inl InternalError, db)
                      | Some user \<Rightarrow>
                          (case addOfficer club user of
                             Inl e \<Rightarrow> (Inl InternalError, db)
                           | Inr club' \<Rightarrow>
                               (Inr (length (officers club'), length (members club')),
                                db(clubId \<mapsto> club'))))))"

text \<open>
  The method \<^verbatim>\<open>addOfficer\<close> as \<^verbatim>\<open>src/api/clubs.ts\<close> calls it, with the string of the
  body: both \<^verbatim>\<open>includes\<close> compare spellings, and \<^verbatim>\<open>push\<close> casts the string to an
  identifier, throwing (answered 500 by the route) when the string spells none.
\<close>

definition addOfficer_string :: "(string \<Rightarrow> oid option) \<Rightarrow> club \<Rightarrow> string \<Rightarrow> error + club" where
  "addOfficer_string other this userId =
     (case ObjectId_of_string other userId of
        None \<Rightarrow>
          if includes_string (members this) userId \<and> includes_string (officers this) userId
          then Club_save this else Inl InternalError
      | Some user \<Rightarrow>
          (let this1 = (if \<not> includes_string (members this) userId
                        then this\<lparr>members := members this @ [user]\<rparr> else this);
               this2 = (if \<not> includes_string (officers this1) userId
                        then this1\<lparr>officers := officers this1 @ [user]\<rparr> else this1)
           in Club_save this2))"

text \<open>
  \<^verbatim>\<open>POST /api/clubs/:id/officers\<close> of \<^verbatim>\<open>src/api/clubs.ts\<close>, for a body that carries a
  string \<^verbatim>\<open>userId\<close>; the answer of a success is \<^verbatim>\<open>{message, officerCount}\<close>.
\<close>

definition addOfficer_api ::
  "(string \<Rightarrow> oid option) \<Rightarrow> club store \<Rightarrow> oid \<Rightarrow> string \<Rightarrow> (error + nat) \<times> club store" where
  "addOfficer_api other db clubId userId =
     (case db clubId of
        None \<Rightarrow> (Inl NotFound, db)
      | Some club \<Rightarrow>
          (case addOfficer_string other club userId of
             Inl e \<Rightarrow> (Inl InternalError, db)
           | Inr club' \<Rightarrow> (Inr (length (officers club')), db(clubId \<mapsto> club'))))"

section \<open>Image URLs\<close>

text \<open>
  The schemas test an image URL against
  \<^verbatim>\<open>/^https?:\/\/.+\.(jpg|jpeg|png|webp|gif)$/i\<close>: the scheme, at least one character
  none of which ends a line, a dot and one of five extensions at the very end, letters
  compared without regard to case. For a given scheme and extension the middle part is
  determined, so the match is decided by comparing both ends.
\<close>

definition toLowerCase_char :: "char \<Rightarrow> char" where
  "toLowerCase_char c =
     (case map_of (zip ''ABCDEFGHIJKLMNOPQRSTUVWXYZ'' ''abcdefghijklmnopqrstuvwxyz'') c of
        None \<Rightarrow> c | Some d \<Rightarrow> d)"

definition is_line_terminator :: "char \<Rightarrow> bool" where
  "is_line_terminator c = (c = CHR 0x0A \<or> c = CHR 0x0D)"

definition image_url_match :: "string \<Rightarrow> string \<Rightarrow> string \<Rightarrow> bool" where
  "image_url_match scheme ext url =
     (let s = map toLowerCase_char url;
          n = length scheme + 1 + length ext
      in n < length s \<and>
         take (length scheme) s = scheme \<and>
         drop (length s - (1 + length ext)) s = CHR ''.'' # ext \<and>
         list_all (\<lambda>c. \<not> is_line_terminator c) (take (length s - n) (drop (length scheme) s)))"

definition image_url_regex :: "string \<Rightarrow> bool" where
  "image_url_regex url =
     list_ex (\<lambda>scheme. list_ex (\<lambda>ext. image_url_match scheme ext url)
                [''jpg'', ''jpeg'', ''png'', ''webp'', ''gif''])
       [''http://'', ''https://'']"

section \<open>Posts\<close>

record comment =
  comment_id :: oid
  author :: oid
  content :: string
  createdAt :: time

record post =
  content :: string
  author :: oid
  imageUrl :: "string option"
  likes :: "oid list"
  comments :: "comment list"

text \<open>
  Validation by \<^verbatim>\<open>PostSchema\<close> and \<^verbatim>\<open>CommentSchema\<close>: content required and at most
  2000 (a comment's: 500) characters; the image URL, when there is one, empty or an image
  URL (\<^verbatim>\<open>!v || regex.test(v)\<close>). The arrays \<^verbatim>\<open>likes\<close> and \<^verbatim>\<open>comments\<close> have no
  validator of their own.
\<close>

definition CommentSchema_validate :: "comment \<Rightarrow> bool" where
  "CommentSchema_validate c = (comment.content c \<noteq> [] \<and> length (comment.content c) \<le> 500)"

definition PostSchema_validate :: "post \<Rightarrow> bool" where
  "PostSchema_validate p =
     (post.content p \<noteq> [] \<and> length (post.content p) \<le> 2000 \<and>
      (case imageUrl p of None \<Rightarrow> True | Some v \<Rightarrow> v = [] \<or> image_url_regex v) \<and>
      list_all CommentSchema_validate (comments p))"

definition Post_save :: "post \<Rightarrow> error + post" where
  "Post_save p = (if PostSchema_validate p then Inr p else Inl ValidationError)"

text \<open>\<^verbatim>\<open>addLike\<close> saves only when it pushes; otherwise it returns the document as it is.\<close>

definition addLike :: "post \<Rightarrow> oid \<Rightarrow> error + post" where
  "addLike this userId =
     (if userId \<notin> set (likes this) then Post_save (this\<lparr>likes := likes this @ [userId]\<rparr>)
      else Inr this)"

definition removeLike :: "post \<Rightarrow> oid \<Rightarrow> error + post" where
  "removeLike this userId =
     Post_save (this\<lparr>likes := filter (\<lambda>likeId. likeId \<noteq> userId) (likes this)\<rparr>)"

definition toggleLike :: "post \<Rightarrow> oid \<Rightarrow> error + post" where
  "toggleLike this userId =
     (let hasLiked = list_ex (\<lambda>likeId. likeId = userId) (likes this)
      in if hasLiked then removeLike this userId else addLike this userId)"

definition isLikedBy :: "post \<Rightarrow> oid \<Rightarrow> bool" where
  "isLikedBy this userId = list_ex (\<lambda>likeId. likeId = userId) (likes this)"

text \<open>
  \<^verbatim>\<open>POST /api/posts/:id/like\<close>. The answer of a success is
  \<^verbatim>\<open>{message, likeCount, isLiked}\<close>; a rejected \<^verbatim>\<open>save()\<close> is answered 500.
\<close>

record like_response =
  message :: string
  likeCount :: nat
  isLiked :: bool

definition toggleLike_route :: "post store \<Rightarrow> oid \<Rightarrow> oid \<Rightarrow> (error + like_response) \<times> post store" where
  "toggleLike_route db postId userId =
     (case db postId of
        None \<Rightarrow> (Inl NotFound, db)
      | Some post \<Rightarrow>
          (case toggleLike post userId of
             Inl e \<Rightarrow> (Inl InternalError, db)
           | Inr post' \<Rightarrow>
               (Inr \<lparr>message = (if isLikedBy post' userId then ''Post liked'' else ''Post unliked''),
                     likeCount = length (likes post'),
                     isLiked = isLikedBy post' userId\<rparr>,
                db(postId \<mapsto> post'))))"

section \<open>Marketplace listings\<close>

text \<open>A JavaScript number: a finite value, NaN or an infinity.\<close>

datatype number = Num real | NaN | Infinity | MinusInfinity

definition number_ge :: "number \<Rightarrow> real \<Rightarrow> bool" where
  "number_ge x r = (case x of Num v \<Rightarrow> v \<ge> r | Infinity \<Rightarrow> True | _ \<Rightarrow> False)"

definition Number_isFinite :: "number \<Rightarrow> bool" where
  "Number_isFinite x = (case x of Num v \<Rightarrow> True | _ \<Rightarrow> False)"

definition ListingCategory_values :: "string list" where
  "ListingCategory_values = [''books'', ''electronics'', ''furniture'', ''other'']"

record listing =
  title :: string
  description :: "string option"
  price :: number
  seller :: oid
  imageUrls :: "string list"
  category :: string
  isAvailable :: bool

text \<open>
  Validation by \<^verbatim>\<open>MarketplaceListingSchema\<close>: title required, at most 200 characters;
  description at most 1000; price at least 0 (\<^verbatim>\<open>min\<close>) and
  \<^verbatim>\<open>Number.isFinite(price) && price >= 0\<close>; every image URL matches the pattern; the
  category is one of the enum's values.
\<close>

definition ListingSchema_validate :: "listing \<Rightarrow> bool" where
  "ListingSchema_validate l =
     (listing.title l \<noteq> [] \<and> length (listing.title l) \<le> 200 \<and>
      (case listing.description l of None \<Rightarrow> True | Some d \<Rightarrow> length d \<le> 1000) \<and>
      number_ge (price l) 0 \<and> (Number_isFinite (price l) \<and> number_ge (price l) 0) \<and>
      list_all image_url_regex (imageUrls l) \<and>
      category l \<in> set ListingCategory_values)"

definition Listing_save :: "listing \<Rightarrow> error + listing" where
  "Listing_save l = (if ListingSchema_validate l then Inr l else Inl ValidationError)"

definition markAsSold :: "listing \<Rightarrow> error + listing" where
  "markAsSold this = Listing_save (this\<lparr>isAvailable := False\<rparr>)"

definition markAsAvailable :: "listing \<Rightarrow> error + listing" where
  "markAsAvailable this = Listing_save (this\<lparr>isAvailable := True\<rparr>)"

text \<open>
  \<^verbatim>\<open>POST /api/listings/:id/sold\<close> of the validated router; the answer of a success is
  \<^verbatim>\<open>{isAvailable}\<close>.
\<close>

definition markSold_route :: "listing store \<Rightarrow> oid \<Rightarrow> (error + bool) \<times> listing store" where
  "markSold_route db listingId =
     (case db listingId of
        None \<Rightarrow> (Inl NotFound, db)
      | Some listing \<Rightarrow>
          if \<not> isAvailable listing then (Inl Conflict, db)
          else (case markAsSold listing of
                  Inl e \<Rightarrow> (Inl InternalError, db)
                | Inr listing' \<Rightarrow> (Inr (isAvailable listing'), db(listingId \<mapsto> listing'))))"

text \<open>
  \<^verbatim>\<open>POST /api/marketplace/:id/available\<close>, the one route that calls
  \<^verbatim>\<open>markAsAvailable\<close>; it has no check of the current state.
\<close>

definition markAvailable_route :: "listing store \<Rightarrow> oid \<Rightarrow> (error + bool) \<times> listing store" where
  "markAvailable_route db listingId =
     (case db listingId of
        None \<Rightarrow> (Inl NotFound, db)
      | Some listing \<Rightarrow>
          (case markAsAvailable listing of
             Inl e \<Rightarrow> (Inl InternalError, db)
           | Inr listing' \<Rightarrow> (Inr (isAvailable listing'), db(listingId \<mapsto> listing'))))"

section \<open>Events\<close>

text \<open>
  The validators of \<^verbatim>\<open>EventSchema\<close>. \<open>now\<close> is the value of \<^verbatim>\<open>new Date()\<close>. The validator of
  \<^verbatim>\<open>endTime\<close> reads \<^verbatim>\<open>this.startTime\<close>: when a document is saved \<^verbatim>\<open>this\<close> is the document;
  when \<^verbatim>\<open>findByIdAndUpdate\<close> runs the validators (\<^verbatim>\<open>runValidators: true\<close>) \<^verbatim>\<open>this\<close> is not
  the stored document, \<^verbatim>\<open>this.startTime\<close> is no date, and the comparison
  \<^verbatim>\<open>endTime > this.startTime\<close> is false.
\<close>

definition EventSchema_coordinates_validator :: "real list \<Rightarrow> bool" where
  "EventSchema_coordinates_validator coords =
     (length coords = 2 \<and>
      coords ! 0 \<ge> - 180 \<and> coords ! 0 \<le> 180 \<and>
      coords ! 1 \<ge> - 90 \<and> coords ! 1 \<le> 90)"

definition EventSchema_startTime_validator :: "time \<Rightarrow> time \<Rightarrow> bool" where
  "EventSchema_startTime_validator now startTime = (startTime > now)"

definition EventSchema_endTime_validator :: "time option \<Rightarrow> time \<Rightarrow> bool" where
  "EventSchema_endTime_validator this_startTime endTime =
     (case this_startTime of None \<Rightarrow> False | Some s \<Rightarrow> endTime > s)"

record event =
  title :: string
  description :: string
  locationName :: "string option"
  locationCoords :: "real list option"
  startTime :: time
  endTime :: time
  host :: oid
  attendees :: "oid list"

text \<open>
  Validation of an event document: title required, at most 200 characters; description
  required, at most 2000; location name at most 200; the coordinates, the start and the end
  by their validators.
\<close>

definition EventSchema_validate :: "time \<Rightarrow> event \<Rightarrow> bool" where
  "EventSchema_validate now e =
     (event.title e \<noteq> [] \<and> length (event.title e) \<le> 200 \<and>
      event.description e \<noteq> [] \<and> length (event.description e) \<le> 2000 \<and>
      (case locationName e of None \<Rightarrow> True | Some n \<Rightarrow> length n \<le> 200) \<and>
      (case locationCoords e of None \<Rightarrow> True | Some cs \<Rightarrow> EventSchema_coordinates_validator cs) \<and>
      EventSchema_startTime_validator now (startTime e) \<and>
      EventSchema_endTime_validator (Some (startTime e)) (endTime e))"

text \<open>
  \<^verbatim>\<open>event.save()\<close> at time \<open>now\<close>: the document is validated, the start against the
  current time included, and stored only if it passes.
\<close>

definition Event_save :: "time \<Rightarrow> event \<Rightarrow> error + event" where
  "Event_save now e = (if EventSchema_validate now e then Inr e else Inl ValidationError)"

subsection \<open>Creation\<close>

text \<open>
  The body of a create request. A date field is \<open>None\<close> when it is missing or not an
  ISO 8601 date. \<^verbatim>\<open>location\<close> is the field the validation chain reads;
  \<^verbatim>\<open>locationName\<close> the one the schema stores.
\<close>

record event_body =
  req_title :: "string option"
  req_description :: "string option"
  req_location :: "string option"
  req_locationName :: "string option"
  req_locationCoords :: "real list option"
  req_startTime :: "time option"
  req_endTime :: "time option"
  req_host :: "oid option"
  req_attendees :: "oid list"

text \<open>
  \<^verbatim>\<open>new Event(req.body)\<close> followed by \<^verbatim>\<open>event.save()\<close>: the title and the location name
  are trimmed by the schema; a missing start, end or host fails \<^verbatim>\<open>required\<close>, and so does
  a missing (or empty) title or description.
\<close>

definition Event_create :: "time \<Rightarrow> event_body \<Rightarrow> error + event" where
  "Event_create now body =
     (case (req_startTime body, req_endTime body, req_host body) of
        (Some s, Some e, Some h) \<Rightarrow>
          Event_save now
            \<lparr>event.title = trim (field_string (req_title body)),
             event.description = field_string (req_description body),
             locationName = map_option trim (req_locationName body),
             locationCoords = req_locationCoords body,
             startTime = s, endTime = e, host = h,
             attendees = req_attendees body\<rparr>
      | _ \<Rightarrow> Inl ValidationError)"

text \<open>\<^verbatim>\<open>POST /api/events\<close> of \<^verbatim>\<open>src/api/events.ts\<close>: a ValidationError is answered 400.\<close>

definition createEvent_api :: "time \<Rightarrow> event_body \<Rightarrow> error + event" where
  "createEvent_api now body = Event_create now body"

text \<open>
  \<^verbatim>\<open>validateCreateEvent\<close>, for the fields above (the optional fields \<^verbatim>\<open>maxAttendees\<close>,
  \<^verbatim>\<open>isPublic\<close>, \<^verbatim>\<open>tags\<close>, \<^verbatim>\<open>imageUrl\<close> and \<^verbatim>\<open>requiresApproval\<close> are absent):
  \<^verbatim>\<open>body('title').trim().isLength({ min: 3, max: 100 })\<close>,
  \<^verbatim>\<open>body('description').trim().isLength({ min: 10, max: 1000 })\<close>, both dates ISO 8601,
  the end not \<^verbatim>\<open><=\<close> the start, \<^verbatim>\<open>location\<close> 3 to 200 characters, a host.
\<close>

definition validateCreateEvent_title :: "string option \<Rightarrow> bool" where
  "validateCreateEvent_title t =
     (3 \<le> length (trim (field_string t)) \<and> length (trim (field_string t)) \<le> 100)"

definition validateCreateEvent_description :: "string option \<Rightarrow> bool" where
  "validateCreateEvent_description d =
     (10 \<le> length (trim (field_string d)) \<and> length (trim (field_string d)) \<le> 1000)"

definition validateDateTimeAfter :: "time option \<Rightarrow> time option \<Rightarrow> bool" where
  "validateDateTimeAfter fieldValue afterValue =
     (case fieldValue of
        None \<Rightarrow> False
      | Some v \<Rightarrow> (case afterValue of None \<Rightarrow> True | Some a \<Rightarrow> \<not> v \<le> a))"

definition validateCreateEvent :: "event_body \<Rightarrow> bool" where
  "validateCreateEvent body =
     (validateCreateEvent_title (req_title body) \<and>
      validateCreateEvent_description (req_description body) \<and>
      req_startTime body \<noteq> None \<and>
      validateDateTimeAfter (req_endTime body) (req_startTime body) \<and>
      3 \<le> length (trim (field_string (req_location body))) \<and>
      length (trim (field_string (req_location body))) \<le> 200 \<and>
      req_host body \<noteq> None)"

text \<open>The sanitizers of the chain write the trimmed strings back into the body.\<close>

definition sanitizeCreateEvent :: "event_body \<Rightarrow> event_body" where
  "sanitizeCreateEvent body =
     body\<lparr>req_title := Some (trim (field_string (req_title body))),
          req_description := Some (trim (field_string (req_description body))),
          req_location := Some (trim (field_string (req_location body)))\<rparr>"

text \<open>
  \<^verbatim>\<open>POST /api/events\<close> of the validated router: the chain, the handler's own check
  \<^verbatim>\<open>startTime <= new Date()\<close>, then creation.
\<close>

definition createEvent_route :: "time \<Rightarrow> event_body \<Rightarrow> error + event" where
  "createEvent_route now body =
     (if \<not> validateCreateEvent body then Inl ValidationError
      else (let eventData = sanitizeCreateEvent body
            in case req_startTime eventData of
                 None \<Rightarrow> Inl ValidationError
               | Some start \<Rightarrow>
                   if start \<le> now then Inl ValidationError
                   else Event_create now eventData))"

subsection \<open>Update\<close>

text \<open>
  The body of \<^verbatim>\<open>PUT /api/events/:id\<close>: the fields it sets. \<^verbatim>\<open>findByIdAndUpdate\<close> with
  \<^verbatim>\<open>runValidators: true\<close> runs, for each path the update sets, that path's validators on
  the new value, before anything is written; a path the update does not set is not
  validated.
\<close>

record event_update =
  upd_title :: "string option"
  upd_description :: "string option"
  upd_locationName :: "string option"
  upd_startTime :: "time option"
  upd_endTime :: "time option"
  upd_host :: "oid option"
  upd_attendees :: "oid list option"

definition Event_update_validators :: "time \<Rightarrow> event_update \<Rightarrow> bool" where
  "Event_update_validators now upd =
     ((case upd_title upd of None \<Rightarrow> True
       | Some t \<Rightarrow> trim t \<noteq> [] \<and> length (trim t) \<le> 200) \<and>
      (case upd_description upd of None \<Rightarrow> True
       | Some d \<Rightarrow> d \<noteq> [] \<and> length d \<le> 2000) \<and>
      (case upd_locationName upd of None \<Rightarrow> True | Some n \<Rightarrow> length (trim n) \<le> 200) \<and>
      (case upd_startTime upd of None \<Rightarrow> True
       | Some s \<Rightarrow> EventSchema_startTime_validator now s) \<and>
      (case upd_endTime upd of None \<Rightarrow> True
       | Some e \<Rightarrow> EventSchema_endTime_validator None e))"

definition Event_apply_update :: "event \<Rightarrow> event_update \<Rightarrow> event" where
  "Event_apply_update e upd =
     \<lparr>event.title = (case upd_title upd of None \<Rightarrow> event.title e | Some t \<Rightarrow> trim t),
      event.description = (case upd_description upd of None \<Rightarrow> event.description e | Some d \<Rightarrow> d),
      locationName = (case upd_locationName upd of None \<Rightarrow> locationName e | Some n \<Rightarrow> Some (trim n)),
      locationCoords = locationCoords e,
      startTime = (case upd_startTime upd of None \<Rightarrow> startTime e | Some s \<Rightarrow> s),
      endTime = (case upd_endTime upd of None \<Rightarrow> endTime e | Some t \<Rightarrow> t),
      host = (case upd_host upd of None \<Rightarrow> host e | Some h \<Rightarrow> h),
      attendees = (case upd_attendees upd of None \<Rightarrow> attendees e | Some a \<Rightarrow> a)\<rparr>"

text \<open>\<^verbatim>\<open>PUT /api/events/:id\<close> (\<^verbatim>\<open>src/api/events.ts\<close>, the only update route of events).\<close>

definition updateEvent_api :: "time \<Rightarrow> event store \<Rightarrow> oid \<Rightarrow> event_update \<Rightarrow> (error + event) \<times> event store" where
  "updateEvent_api now db eventId upd =
     (if \<not> Event_update_validators now upd then (Inl ValidationError, db)
      else (case db eventId of
              None \<Rightarrow> (Inl NotFound, db)
            | Some e \<Rightarrow> (Inr (Event_apply_update e upd), db(eventId \<mapsto> Event_apply_update e upd))))"

text \<open>
  \<^verbatim>\<open>validateUpdateEvent\<close>, the chain exported for updates, for the fields above: title and
  description optional with the bounds of creation; the end, when given, is compared with
  the start only \<^verbatim>\<open>if (req.body.startTime)\<close>, and then with the start of the request.
\<close>

definition validateUpdateEvent :: "event_update \<Rightarrow> bool" where
  "validateUpdateEvent upd =
     ((case upd_title upd of None \<Rightarrow> True
       | Some t \<Rightarrow> 3 \<le> length (trim t) \<and> length (trim t) \<le> 100) \<and>
      (case upd_description upd of None \<Rightarrow> True
       | Some d \<Rightarrow> 10 \<le> length (trim d) \<and> length (trim d) \<le> 1000) \<and>
      (case upd_endTime upd of None \<Rightarrow> True
       | Some v \<Rightarrow> (case upd_startTime upd of None \<Rightarrow> True | Some s \<Rightarrow> \<not> v \<le> s)))"

subsection \<open>Attending\<close>


section \<open>Properties: ObjectIds\<close>

lemma hex_digit_hex_char: "d < 16 \<Longrightarrow> hex_digit (hex_char d) = Some d"
proof -
  assume "d < 16"
  then have "d \<in> {0, 1, 2, 3, 4, 5, 6, 7, 8, 9, 10, 11, 12, 13, 14, 15}" by simp arith
  then show ?thesis
    by (elim insertE emptyE) (simp_all add: hex_digit_def hex_char_def)
qed

lemma hex_value_snoc:
  "hex_value (s @ [c]) = 16 * hex_value s + (case hex_digit c of None \<Rightarrow> 0 | Some d \<Rightarrow> d)"
  by (simp add: hex_value_def)

lemma hex_value_hex_digits: "hex_value (hex_digits n) = n"
proof (induction n rule: hex_digits.induct)
  case (1 n)
  show ?case
  proof (cases "n < 16")
    case True
    then show ?thesis
      using hex_value_snoc [of "[]" "hex_char n"]
      by (simp add: hex_digits.simps [of n] hex_digit_hex_char hex_value_def)
  next
    case False
    then have "hex_value (hex_digits n) = 16 * hex_value (hex_digits (n div 16)) + n mod 16"
      by (simp add: hex_digits.simps [of n] hex_value_snoc hex_digit_hex_char)
    then show ?thesis using 1 False by simp
  qed
qed

lemma hex_value_zeros: "hex_value (replicate k (CHR ''0'') @ s) = hex_value s"
proof -
  have z: "hex_digit (CHR ''0'') = Some 0" by (simp add: hex_digit_def)
  have "foldl (\<lambda>acc c. 16 * acc + (case hex_digit c of None \<Rightarrow> 0 | Some d \<Rightarrow> d)) 0
          (replicate k (CHR ''0'')) = 0"
    by (induction k) (simp_all add: z)
  then show ?thesis by (simp add: hex_value_def)
qed

lemma hex_value_toString: "hex_value (ObjectId_toString u) = u"
  by (simp add: ObjectId_toString_def hex_value_zeros hex_value_hex_digits)

lemma ObjectId_toString_inj: "ObjectId_toString u = ObjectId_toString v \<longleftrightarrow> u = v"
  by (metis hex_value_toString)

lemma hex_digits_all_hex: "list_all (\<lambda>c. hex_digit c \<noteq> None) (hex_digits n)"
proof (induction n rule: hex_digits.induct)
  case (1 n)
  show ?case
  proof (cases "n < 16")
    case True
    then show ?thesis by (simp add: hex_digits.simps [of n] hex_digit_hex_char)
  next
    case False
    then show ?thesis using 1 by (simp add: hex_digits.simps [of n] hex_digit_hex_char)
  qed
qed

lemma length_hex_digits: "n < 16 ^ k \<Longrightarrow> 0 < k \<Longrightarrow> length (hex_digits n) \<le> k"
proof (induction n arbitrary: k rule: hex_digits.induct)
  case (1 n)
  show ?case
  proof (cases "n < 16")
    case True
    then show ?thesis using "1.prems" by (simp add: hex_digits.simps [of n])
  next
    case False
    obtain j where k: "k = Suc j" using "1.prems"(2) by (cases k) auto
    have "0 < j" using False "1.prems"(1) k by (cases j) auto
    moreover have "n div 16 < 16 ^ j" using "1.prems"(1) k by (simp add: less_mult_imp_div_less)
    ultimately have "length (hex_digits (n div 16)) \<le> j" using "1.IH" False by simp
    then show ?thesis using False k by (simp add: hex_digits.simps [of n])
  qed
qed

lemma is_hex24_toString: "u < 2 ^ 96 \<Longrightarrow> is_hex24 (ObjectId_toString u)"
proof -
  assume "u < 2 ^ 96"
  then have "u < 16 ^ 24" by simp
  then have "length (hex_digits u) \<le> 24" by (rule length_hex_digits) simp
  moreover have "hex_digit (CHR ''0'') \<noteq> None" by (simp add: hex_digit_def)
  ultimately show ?thesis
    using hex_digits_all_hex [of u]
    by (simp add: is_hex24_def ObjectId_toString_def list_all_length nth_append)
qed

lemma ObjectId_of_string_toString:
  "u < 2 ^ 96 \<Longrightarrow> ObjectId_of_string other (ObjectId_toString u) = Some u"
  by (simp add: ObjectId_of_string_def is_hex24_toString hex_value_toString)

lemma validateRequiredObjectId_toString:
  "u < 2 ^ 96 \<Longrightarrow> validateRequiredObjectId other (ObjectId_toString u)"
  using is_hex24_toString [of u]
  by (auto simp: validateRequiredObjectId_def ObjectId_isValid_def ObjectId_of_string_def
        is_hex24_def)

lemma list_ex_toString: "list_ex (\<lambda>x. ObjectId_toString x = ObjectId_toString u) xs \<longleftrightarrow> u \<in> set xs"
  by (auto simp: list_ex_iff ObjectId_toString_inj)

lemma includes_string_toString: "includes_string xs (ObjectId_toString u) \<longleftrightarrow> u \<in> set xs"
  by (simp add: includes_string_def list_ex_toString)

section \<open>Properties: pagination\<close>






text \<open>
  Beyond \<open>2 ^ 53\<close> the page that is answered is not the page that was asked for: an odd
  page next to \<open>2 ^ 53\<close> is rounded, and a page of 21 digits is answered as page 1.
\<close>

lemma parseInt_or_rounded:
  "parseInt_or (Some 9007199254740993) 1 = 9007199254740992"
  "parseInt_or (Some 999999999999999999999) 1 = 1"
  by (simp_all add: parseInt_or_def parseInt_Number_def toInt_def round_int_def round_nat_def
        toString_first_digit_def dbl_exp.simps digits10.simps Let_def)




lemma Math_ceil_div_least:
  assumes "0 < l" "0 \<le> t"
  shows "t \<le> Math_ceil_div t l * l \<and> (\<forall>n. t \<le> n * l \<longrightarrow> Math_ceil_div t l \<le> n)"
proof -
  have "real_of_int t / real_of_int l \<le> real_of_int (Math_ceil_div t l)"
    by (simp add: Math_ceil_div_def)
  then have "real_of_int t \<le> real_of_int (Math_ceil_div t l * l)"
    using assms by (simp add: pos_divide_le_eq)
  then have a: "t \<le> Math_ceil_div t l * l" by linarith
  have "Math_ceil_div t l \<le> n" if "t \<le> n * l" for n
  proof -
    have "real_of_int t \<le> real_of_int n * real_of_int l"
      using that by (metis of_int_le_iff of_int_mult)
    then have "real_of_int t / real_of_int l \<le> real_of_int n"
      using assms by (simp add: pos_divide_le_eq)
    then show ?thesis by (simp add: Math_ceil_div_def ceiling_le_iff)
  qed
  with a show ?thesis by blast
qed



section \<open>Properties: clubs\<close>

lemma Club_save_Inr_iff: "Club_save c = Inr c' \<longleftrightarrow> c' = c \<and> ClubSchema_validate c"
  by (auto simp: Club_save_def)

lemma ClubSchema_validate_officers:
  "ClubSchema_validate c \<Longrightarrow> set (officers c) \<subseteq> set (members c)"
  by (auto simp: ClubSchema_validate_def ClubSchema_officers_validator_def list_all_iff)

lemma ClubSchema_validate_eq:
  "ClubSchema_validate c \<longleftrightarrow>
     name c \<noteq> [] \<and> length (name c) \<le> 100 \<and>
     (case club.description c of None \<Rightarrow> True | Some d \<Rightarrow> length d \<le> 1000) \<and>
     set (officers c) \<subseteq> set (members c)"
  by (auto simp: ClubSchema_validate_def ClubSchema_officers_validator_def list_all_iff)

lemma addMember_valid:
  "ClubSchema_validate c \<Longrightarrow>
     addMember c u = Inr (if u \<in> set (members c) then c else c\<lparr>members := members c @ [u]\<rparr>)"
  by (auto simp: addMember_def Club_save_def ClubSchema_validate_eq)

lemma removeMember_valid:
  "ClubSchema_validate c \<Longrightarrow>
     removeMember c u = Inr (c\<lparr>members := filter (\<lambda>m. m \<noteq> u) (members c),
                                officers := filter (\<lambda>m. m \<noteq> u) (officers c)\<rparr>)"
  by (auto simp: removeMember_def Club_save_def ClubSchema_validate_eq)

lemma removeOfficer_valid:
  "ClubSchema_validate c \<Longrightarrow>
     removeOfficer c u = Inr (c\<lparr>officers := filter (\<lambda>m. m \<noteq> u) (officers c)\<rparr>)"
  by (auto simp: removeOfficer_def Club_save_def ClubSchema_validate_eq)

lemma addOfficer_valid:
  "ClubSchema_validate c \<Longrightarrow>
     \<exists>c'. addOfficer c u = Inr c' \<and> ClubSchema_validate c' \<and>
          name c' = name c \<and> club.description c' = club.description c \<and>
          members c' = (if u \<in> set (members c) then members c else members c @ [u]) \<and>
          officers c' = (if u \<in> set (officers c) then officers c else officers c @ [u])"
  by (auto simp: addOfficer_def Club_save_def ClubSchema_validate_eq Let_def)

lemma addOfficer_twice:
  "addOfficer c u = Inr c' \<Longrightarrow> addOfficer c' u = Inr c'"
  by (auto simp: addOfficer_def Club_save_def Let_def split: if_splits)


lemma removeMember_Inr:
  "removeMember c u = Inr c' \<Longrightarrow>
     u \<notin> set (members c') \<and> u \<notin> set (officers c') \<and>
     set (members c') = set (members c) - {u} \<and> set (officers c') = set (officers c) - {u} \<and>
     name c' = name c \<and> club.description c' = club.description c"
  by (auto simp: removeMember_def Club_save_def split: if_splits)

lemma leaveClub_route_member:
  assumes "db clubId = Some c" "ClubSchema_validate c" "u \<in> set (members c)" "u < 2 ^ 96"
  shows "\<exists>c'. leaveClub_route other db clubId (ObjectId_toString u)
                = (Inr (length (members c'), False), db(clubId \<mapsto> c')) \<and>
           u \<notin> set (members c') \<and> u \<notin> set (officers c') \<and>
           members c' = filter (\<lambda>m. m \<noteq> u) (members c) \<and>
           officers c' = filter (\<lambda>m. m \<noteq> u) (officers c)"
proof -
  let ?c' = "c\<lparr>members := filter (\<lambda>m. m \<noteq> u) (members c),
               officers := filter (\<lambda>m. m \<noteq> u) (officers c)\<rparr>"
  have "leaveClub_route other db clubId (ObjectId_toString u)
      = (Inr (length (members ?c'), False), db(clubId \<mapsto> ?c'))"
    using assms removeMember_valid [OF assms(2), of u]
    by (simp add: leaveClub_route_def list_ex_toString validateRequiredObjectId_toString
          ObjectId_of_string_toString)
  then show ?thesis by (intro exI [of _ ?c']) simp
qed

lemma leaveClub_route_nonmember:
  assumes "db clubId = Some c" "u \<notin> set (members c)" "u < 2 ^ 96"
  shows "leaveClub_route other db clubId (ObjectId_toString u) = (Inl NotFound, db)"
  using assms
  by (simp add: leaveClub_route_def list_ex_toString validateRequiredObjectId_toString)

text \<open>
  With the string of the body in its canonical spelling, \<^verbatim>\<open>addOfficer\<close> as
  \<^verbatim>\<open>src/api/clubs.ts\<close> calls it is the method on identifiers.
\<close>

lemma addOfficer_string_toString:
  "u < 2 ^ 96 \<Longrightarrow> addOfficer_string other c (ObjectId_toString u) = addOfficer c u"
  by (simp add: addOfficer_string_def addOfficer_def ObjectId_of_string_toString
        includes_string_toString Let_def)

text \<open>
  C5. \<^verbatim>\<open>DELETE /api/clubs/:id/leave\<close> of \<^verbatim>\<open>src/api/clubs.ts\<close>, asked to remove user 8
  from a club whose only member is user 7, answers success with \<open>memberCount = 1\<close>,
  where leaving a club one is not a member of is to report "not found".
\<close>

theorem C5_leaveClub_api_nonmember_succeeds:
  "leaveClub_api
     (Map.empty(1 \<mapsto> \<lparr>name = ''Chess'', club.description = None, members = [7], officers = []\<rparr>)) 1 8
   = (Inr 1,
      Map.empty(1 \<mapsto> \<lparr>name = ''Chess'', club.description = None, members = [7], officers = []\<rparr>))"
  by (simp add: leaveClub_api_def removeMember_def Club_save_def ClubSchema_validate_def)

text \<open>
  C4, as the claim states it, fails on the validated router: adding a user who is already an
  officer is answered 409.
\<close>

theorem C4_addOfficer_route_conflict_counterexample:
  "addOfficer_route (\<lambda>s. None)
     (Map.empty(1 \<mapsto> \<lparr>name = ''Chess'', club.description = None, members = [7], officers = [7]\<rparr>)) 1
     ''000000000000000000000007''
   = (Inl Conflict,
      Map.empty(1 \<mapsto> \<lparr>name = ''Chess'', club.description = None, members = [7], officers = [7]\<rparr>))"
proof -
  have s: "ObjectId_toString 7 = ''000000000000000000000007''" by code_simp
  have v: "validateRequiredObjectId (\<lambda>s. None) ''000000000000000000000007''"
    by (simp add: validateRequiredObjectId_def ObjectId_isValid_def ObjectId_of_string_def
          is_hex24_def hex_digit_def)
  show ?thesis using s v by (simp add: addOfficer_route_def)
qed

text \<open>
  C4, amended. On a stored club the method \<^verbatim>\<open>addOfficer\<close> succeeds, puts the user among
  the members (appending if absent) and then among the officers (appending if absent), and
  calling it again changes nothing and succeeds; so does the route of
  \<^verbatim>\<open>src/api/clubs.ts\<close> when the body spells the user's identifier canonically (24
  hexadecimal digits, letters in lower case). The route of the validated router, given the
  canonical spelling, adds a user who is not an officer in the same way, and answers a user
  who is already an officer with Conflict, the store unchanged.
\<close>

theorem C4_addOfficer_idempotent_method:
  assumes "ClubSchema_validate c" and "db clubId = Some c" and "u < 2 ^ 96"
  shows "\<exists>c'. addOfficer c u = Inr c' \<and>
           members c' = (if u \<in> set (members c) then members c else members c @ [u]) \<and>
           officers c' = (if u \<in> set (officers c) then officers c else officers c @ [u]) \<and>
           u \<in> set (members c') \<and> u \<in> set (officers c') \<and>
           addOfficer c' u = Inr c' \<and>
           addOfficer_api other db clubId (ObjectId_toString u)
             = (Inr (length (officers c')), db(clubId \<mapsto> c')) \<and>
           addOfficer_api other (db(clubId \<mapsto> c')) clubId (ObjectId_toString u)
             = (Inr (length (officers c')), db(clubId \<mapsto> c')) \<and>
           addOfficer_route other db clubId (ObjectId_toString u)
             = (if u \<in> set (officers c) then (Inl Conflict, db)
                else (Inr (length (officers c'), length (members c')), db(clubId \<mapsto> c'))) \<and>
           addOfficer_route other (db(clubId \<mapsto> c')) clubId (ObjectId_toString u)
             = (Inl Conflict, db(clubId \<mapsto> c'))"
proof -
  obtain c' where c': "addOfficer c u = Inr c'"
      "members c' = (if u \<in> set (members c) then members c else members c @ [u])"
      "officers c' = (if u \<in> set (officers c) then officers c else officers c @ [u])"
    using addOfficer_valid [OF assms(1), of u] by blast
  have i: "u \<in> set (members c')" "u \<in> set (officers c')"
    using c'(2,3) by (auto split: if_splits)
  have t: "addOfficer c' u = Inr c'" using c'(1) by (rule addOfficer_twice)
  note s = addOfficer_string_toString [OF assms(3)]
  note v = validateRequiredObjectId_toString [OF assms(3)]
  note o = ObjectId_of_string_toString [OF assms(3)]
  have "addOfficer_api other db clubId (ObjectId_toString u)
      = (Inr (length (officers c')), db(clubId \<mapsto> c'))"
    using assms(2) c'(1) by (simp add: addOfficer_api_def s)
  moreover have "addOfficer_api other (db(clubId \<mapsto> c')) clubId (ObjectId_toString u)
      = (Inr (length (officers c')), db(clubId \<mapsto> c'))"
    using t by (simp add: addOfficer_api_def s)
  moreover have "addOfficer_route other db clubId (ObjectId_toString u)
      = (if u \<in> set (officers c) then (Inl Conflict, db)
         else (Inr (length (officers c'), length (members c')), db(clubId \<mapsto> c')))"
    using assms(2) c'(1) by (simp add: addOfficer_route_def list_ex_toString v o)
  moreover have "addOfficer_route other (db(clubId \<mapsto> c')) clubId (ObjectId_toString u)
      = (Inl Conflict, db(clubId \<mapsto> c'))"
    using i(2) by (simp add: addOfficer_route_def list_ex_toString v)
  ultimately show ?thesis using c' i t by blast
qed

theorem C4_addOfficer_idempotent_method_witness:
  "ClubSchema_validate \<lparr>name = ''Chess'', club.description = None, members = [7], officers = []\<rparr> \<and>
   (Map.empty((1::nat) \<mapsto> \<lparr>name = ''Chess'', club.description = None, members = [7], officers = []\<rparr>)) 1
     = Some \<lparr>name = ''Chess'', club.description = None, members = [7], officers = []\<rparr> \<and>
   (8::nat) < 2 ^ 96 \<and> ObjectId_toString 8 = ''000000000000000000000008'' \<and>
   (\<exists>c'. addOfficer \<lparr>name = ''Chess'', club.description = None, members = [7], officers = []\<rparr> 8 = Inr c' \<and>
      members c' = [7, 8] \<and> officers c' = [8] \<and> addOfficer c' 8 = Inr c' \<and>
      addOfficer_route (\<lambda>s. None)
        (Map.empty(1 \<mapsto> \<lparr>name = ''Chess'', club.description = None, members = [7], officers = []\<rparr>)) 1
        ''000000000000000000000008''
      = (Inr (1, 2),
         (Map.empty(1 \<mapsto> \<lparr>name = ''Chess'', club.description = None, members = [7], officers = []\<rparr>))
           (1 \<mapsto> c')) \<and>
      addOfficer_route (\<lambda>s. None)
        ((Map.empty(1 \<mapsto> \<lparr>name = ''Chess'', club.description = None, members = [7], officers = []\<rparr>))
           (1 \<mapsto> c')) 1 ''000000000000000000000008''
      = (Inl Conflict,
         (Map.empty(1 \<mapsto> \<lparr>name = ''Chess'', club.description = None, members = [7], officers = []\<rparr>))
           (1 \<mapsto> c')))"
proof -
  let ?c = "\<lparr>name = ''Chess'', club.description = None, members = [7], officers = []\<rparr>"
  let ?db = "Map.empty((1::nat) \<mapsto> ?c)"
  have v: "ClubSchema_validate ?c"
    by (simp add: ClubSchema_validate_def ClubSchema_officers_validator_def)
  have d: "?db 1 = Some ?c" by simp
  have b: "(8::nat) < 2 ^ 96" by simp
  have s: "ObjectId_toString 8 = ''000000000000000000000008''" by code_simp
  from C4_addOfficer_idempotent_method [of ?c ?db 1 8 "\<lambda>s. None", OF v d b]
  obtain c' where c': "addOfficer ?c 8 = Inr c'"
      "members c' = (if 8 \<in> set (members ?c) then members ?c else members ?c @ [8])"
      "officers c' = (if 8 \<in> set (officers ?c) then officers ?c else officers ?c @ [8])"
      "addOfficer c' 8 = Inr c'"
      "addOfficer_route (\<lambda>s. None) ?db 1 (ObjectId_toString 8)
         = (if 8 \<in> set (officers ?c) then (Inl Conflict, ?db)
            else (Inr (length (officers c'), length (members c')), ?db(1 \<mapsto> c')))"
      "addOfficer_route (\<lambda>s. None) (?db(1 \<mapsto> c')) 1 (ObjectId_toString 8)
         = (Inl Conflict, ?db(1 \<mapsto> c'))"
    by blast
  have m: "members c' = [7, 8]" "officers c' = [8]" using c'(2,3) by simp_all
  have r1: "addOfficer_route (\<lambda>s. None) ?db 1 ''000000000000000000000008''
      = (Inr (1, 2), ?db(1 \<mapsto> c'))"
    using c'(5) m by (simp add: s)
  have r2: "addOfficer_route (\<lambda>s. None) (?db(1 \<mapsto> c')) 1 ''000000000000000000000008''
      = (Inl Conflict, ?db(1 \<mapsto> c'))"
    using c'(6) by (simp add: s)
  show ?thesis
    using v d b s c'(1) m c'(4) r1 r2 by (intro conjI exI [of _ c']) 
qed

text \<open>
  Both routes recognise an officer by the spelling of the identifier. With user 10 an officer
  and the body spelling the identifier with an upper-case letter, the validated router does
  not answer Conflict but succeeds and changes nothing, and the route of
  \<^verbatim>\<open>src/api/clubs.ts\<close> appends the user to both lists again.
\<close>

lemma addOfficer_upper_case_spelling:
  "addOfficer_route (\<lambda>s. None)
     (Map.empty(1 \<mapsto> \<lparr>name = ''Chess'', club.description = None, members = [10], officers = [10]\<rparr>)) 1
     ''00000000000000000000000A''
   = (Inr (1, 1),
      Map.empty(1 \<mapsto> \<lparr>name = ''Chess'', club.description = None, members = [10], officers = [10]\<rparr>))"
  "addOfficer_api (\<lambda>s. None)
     (Map.empty(1 \<mapsto> \<lparr>name = ''Chess'', club.description = None, members = [10], officers = [10]\<rparr>)) 1
     ''00000000000000000000000A''
   = (Inr 2,
      Map.empty(1 \<mapsto> \<lparr>name = ''Chess'', club.description = None, members = [10, 10],
        officers = [10, 10]\<rparr>))"
proof -
  have s: "ObjectId_toString 10 = ''00000000000000000000000a''" by code_simp
  have p: "ObjectId_of_string (\<lambda>s. None) ''00000000000000000000000A'' = Some 10"
    by (simp add: ObjectId_of_string_def is_hex24_def hex_digit_def hex_value_def)
  have v: "validateRequiredObjectId (\<lambda>s. None) ''00000000000000000000000A''"
    using p by (simp add: validateRequiredObjectId_def ObjectId_isValid_def)
  show "addOfficer_route (\<lambda>s. None)
     (Map.empty(1 \<mapsto> \<lparr>name = ''Chess'', club.description = None, members = [10], officers = [10]\<rparr>)) 1
     ''00000000000000000000000A''
   = (Inr (1, 1),
      Map.empty(1 \<mapsto> \<lparr>name = ''Chess'', club.description = None, members = [10], officers = [10]\<rparr>))"
    using s p v
    by (simp add: addOfficer_route_def addOfficer_def Club_save_def ClubSchema_validate_def
          ClubSchema_officers_validator_def)
  show "addOfficer_api (\<lambda>s. None)
     (Map.empty(1 \<mapsto> \<lparr>name = ''Chess'', club.description = None, members = [10], officers = [10]\<rparr>)) 1
     ''00000000000000000000000A''
   = (Inr 2,
      Map.empty(1 \<mapsto> \<lparr>name = ''Chess'', club.description = None, members = [10, 10],
        officers = [10, 10]\<rparr>))"
    using s p
    by (simp add: addOfficer_api_def addOfficer_string_def includes_string_def Club_save_def
          ClubSchema_validate_def ClubSchema_officers_validator_def)
qed

text \<open>
  C1. After \<^verbatim>\<open>addMember\<close>, \<^verbatim>\<open>removeMember\<close>, \<^verbatim>\<open>addOfficer\<close>, \<^verbatim>\<open>removeOfficer\<close> and
  the creation of a club (by either router), on any club and with any user, every officer
  of the resulting club is a member of it. On a stored club each of the four methods
  succeeds, and \<^verbatim>\<open>addOfficer\<close> leaves the user both a member and an officer, also when
  the user was not a member before.
\<close>

theorem C1_officers_subset_members:
  "(\<forall>c'. addMember c u = Inr c' \<longrightarrow> set (officers c') \<subseteq> set (members c')) \<and>
   (\<forall>c'. removeMember c u = Inr c' \<longrightarrow> set (officers c') \<subseteq> set (members c')) \<and>
   (\<forall>c'. addOfficer c u = Inr c' \<longrightarrow> set (officers c') \<subseteq> set (members c')) \<and>
   (\<forall>c'. removeOfficer c u = Inr c' \<longrightarrow> set (officers c') \<subseteq> set (members c')) \<and>
   (\<forall>c'. createClub existing body = Inr c' \<longrightarrow> set (officers c') \<subseteq> set (members c')) \<and>
   (\<forall>c'. createClub_validated existing body = Inr c' \<longrightarrow>
      set (officers c') \<subseteq> set (members c')) \<and>
   (ClubSchema_validate c \<longrightarrow>
      (\<exists>c'. addMember c u = Inr c') \<and> (\<exists>c'. removeMember c u = Inr c') \<and>
      (\<exists>c'. removeOfficer c u = Inr c') \<and>
      (\<exists>c'. addOfficer c u = Inr c' \<and> u \<in> set (members c') \<and> u \<in> set (officers c')))"
proof -
  have save: "set (officers c') \<subseteq> set (members c')" if "Club_save x = Inr c'" for x c'
    using that by (simp add: Club_save_Inr_iff ClubSchema_validate_officers)
  have create: "set (officers c') \<subseteq> set (members c')" if "createClub ex b = Inr c'" for ex b c'
    using that save [of "new_Club b" c']
    by (auto simp: createClub_def split: sum.splits if_splits)
  have "set (officers c') \<subseteq> set (members c')" if "addMember c u = Inr c'" for c'
    using that unfolding addMember_def by (rule save)
  moreover have "set (officers c') \<subseteq> set (members c')" if "removeMember c u = Inr c'" for c'
    using that unfolding removeMember_def by (rule save)
  moreover have "set (officers c') \<subseteq> set (members c')" if "addOfficer c u = Inr c'" for c'
    using that unfolding addOfficer_def Let_def by (rule save)
  moreover have "set (officers c') \<subseteq> set (members c')" if "removeOfficer c u = Inr c'" for c'
    using that unfolding removeOfficer_def by (rule save)
  moreover have "set (officers c') \<subseteq> set (members c')"
    if "createClub_validated existing body = Inr c'" for c'
    using that create by (auto simp: createClub_validated_def split: if_splits)
  moreover have "(\<exists>c'. addMember c u = Inr c') \<and> (\<exists>c'. removeMember c u = Inr c') \<and>
      (\<exists>c'. removeOfficer c u = Inr c') \<and>
      (\<exists>c'. addOfficer c u = Inr c' \<and> u \<in> set (members c') \<and> u \<in> set (officers c'))"
    if v: "ClubSchema_validate c"
  proof -
    obtain c' where "addOfficer c u = Inr c'" "u \<in> set (members c')" "u \<in> set (officers c')"
      using addOfficer_valid [OF v, of u] by (auto split: if_splits)
    then show ?thesis
      using addMember_valid [OF v, of u] removeMember_valid [OF v, of u] removeOfficer_valid [OF v, of u]
      by auto
  qed
  ultimately show ?thesis using create by blast
qed

theorem C1_officers_subset_members_witness:
  "ClubSchema_validate \<lparr>name = ''Chess'', club.description = None, members = [1, 2], officers = [1]\<rparr> \<and>
   addOfficer \<lparr>name = ''Chess'', club.description = None, members = [1, 2], officers = [1]\<rparr> 3
     = Inr \<lparr>name = ''Chess'', club.description = None, members = [1, 2, 3], officers = [1, 3]\<rparr> \<and>
   removeMember \<lparr>name = ''Chess'', club.description = None, members = [1, 2], officers = [1]\<rparr> 1
     = Inr \<lparr>name = ''Chess'', club.description = None, members = [2], officers = []\<rparr> \<and>
   createClub [] \<lparr>body_name = Some ''Chess'', body_description = None, body_members = [1], body_officers = [2]\<rparr>
     = Inl ValidationError \<and>
   (\<exists>c'. addOfficer \<lparr>name = ''Chess'', club.description = None, members = [1, 2], officers = [1]\<rparr> 3 = Inr c' \<and>
      set (officers c') \<subseteq> set (members c') \<and> 3 \<in> set (members c') \<and> 3 \<in> set (officers c'))"
proof -
  let ?c = "\<lparr>name = ''Chess'', club.description = None, members = [1, 2], officers = [1]\<rparr>"
  have v: "ClubSchema_validate ?c"
    by (simp add: ClubSchema_validate_def ClubSchema_officers_validator_def)
  have a: "addOfficer ?c 3 = Inr \<lparr>name = ''Chess'', club.description = None, members = [1, 2, 3], officers = [1, 3]\<rparr>"
    by (simp add: addOfficer_def Club_save_def ClubSchema_validate_def ClubSchema_officers_validator_def Let_def)
  have r: "removeMember ?c 1 = Inr \<lparr>name = ''Chess'', club.description = None, members = [2], officers = []\<rparr>"
    by (simp add: removeMember_def Club_save_def ClubSchema_validate_def ClubSchema_officers_validator_def)
  have k: "createClub [] \<lparr>body_name = Some ''Chess'', body_description = None, body_members = [1], body_officers = [2]\<rparr>
     = Inl ValidationError"
    by (simp add: createClub_def new_Club_def Club_save_def ClubSchema_validate_def ClubSchema_officers_validator_def)
  from C1_officers_subset_members [of ?c 3 "[]" "\<lparr>body_name = Some ''Chess'', body_description = None, body_members = [1], body_officers = [2]\<rparr>"]
  show ?thesis using v a r k by simp
qed

section \<open>Properties: posts\<close>

lemma PostSchema_validate_likes [simp]:
  "PostSchema_validate (p\<lparr>likes := xs\<rparr>) = PostSchema_validate p"
  by (simp add: PostSchema_validate_def)

lemma isLikedBy_iff: "isLikedBy p u \<longleftrightarrow> u \<in> set (likes p)"
  by (auto simp: isLikedBy_def list_ex_iff)

lemma toggleLike_unliked:
  assumes "PostSchema_validate p" "u \<notin> set (likes p)"
  shows "toggleLike p u = Inr (p\<lparr>likes := likes p @ [u]\<rparr>)"
  using assms by (simp add: toggleLike_def addLike_def Post_save_def list_ex_iff)

lemma toggleLike_liked:
  assumes "PostSchema_validate p" "u \<in> set (likes p)"
  shows "toggleLike p u = Inr (p\<lparr>likes := filter (\<lambda>l. l \<noteq> u) (likes p)\<rparr>)"
  using assms by (auto simp: toggleLike_def removeLike_def Post_save_def list_ex_iff)

lemma length_filter_neq_once:
  assumes "length (filter (\<lambda>l. l = u) xs) \<le> 1" "u \<in> set xs"
  shows "Suc (length (filter (\<lambda>l. l \<noteq> u) xs)) = length xs"
proof -
  have "filter (\<lambda>l. l = u) xs \<noteq> []" using assms(2) by (simp add: filter_empty_conv)
  then have "length (filter (\<lambda>l. l = u) xs) = 1"
    using assms(1) by (cases "filter (\<lambda>l. l = u) xs") auto
  moreover have "length (filter (\<lambda>l. l = u) xs) + length (filter (\<lambda>l. \<not> l = u) xs) = length xs"
    by (rule sum_length_filter_compl)
  ultimately show ?thesis by simp
qed

lemma toggleLike_twice:
  assumes v: "PostSchema_validate p" and o: "length (filter (\<lambda>l. l = u) (likes p)) \<le> 1"
  shows "\<exists>p1 p2. toggleLike p u = Inr p1 \<and> toggleLike p1 u = Inr p2 \<and>
           isLikedBy p1 u = (\<not> isLikedBy p u) \<and>
           isLikedBy p2 u = isLikedBy p u \<and>
           length (likes p2) = length (likes p) \<and>
           set (likes p2) = set (likes p) \<and>
           p2\<lparr>likes := likes p\<rparr> = p \<and>
           length (filter (\<lambda>l. l = u) (likes p2)) \<le> 1"
proof (cases "u \<in> set (likes p)")
  case False
  let ?p1 = "p\<lparr>likes := likes p @ [u]\<rparr>"
  have 1: "toggleLike p u = Inr ?p1" using v False by (rule toggleLike_unliked)
  have "toggleLike ?p1 u = Inr (?p1\<lparr>likes := filter (\<lambda>l. l \<noteq> u) (likes ?p1)\<rparr>)"
    using v by (intro toggleLike_liked) simp_all
  moreover have "filter (\<lambda>l. l \<noteq> u) (likes p) = likes p"
    using False by (auto simp: filter_id_conv)
  ultimately have 2: "toggleLike ?p1 u = Inr p" by simp
  show ?thesis
    using 1 2 False o by (simp add: isLikedBy_iff)
next
  case True
  let ?p1 = "p\<lparr>likes := filter (\<lambda>l. l \<noteq> u) (likes p)\<rparr>"
  let ?p2 = "p\<lparr>likes := filter (\<lambda>l. l \<noteq> u) (likes p) @ [u]\<rparr>"
  have 1: "toggleLike p u = Inr ?p1" using v True by (rule toggleLike_liked)
  have "toggleLike ?p1 u = Inr (?p1\<lparr>likes := likes ?p1 @ [u]\<rparr>)"
    using v by (intro toggleLike_unliked) simp_all
  then have 2: "toggleLike ?p1 u = Inr ?p2" by simp
  have l: "length (likes ?p2) = length (likes p)"
    using length_filter_neq_once [OF o True] by simp
  have s: "set (likes ?p2) = set (likes p)" using True by auto
  have f: "filter (\<lambda>l. l = u) (likes ?p2) = [u]" by (simp add: filter_empty_conv)
  show ?thesis
    using 1 2 l s True f by (auto simp: isLikedBy_iff)
qed

text \<open>
  C6, as the claim states it ("for every post"), fails on a post whose \<^verbatim>\<open>likes\<close> array
  holds the user twice: \<^verbatim>\<open>removeLike\<close> removes every occurrence and \<^verbatim>\<open>addLike\<close>
  pushes one, so two calls turn a count of 2 into 1.
\<close>

theorem C6_toggleLike_duplicate_counterexample:
  "toggleLike \<lparr>post.content = ''hi'', post.author = 1, imageUrl = None, likes = [7, 7], comments = []\<rparr> 7
     = Inr \<lparr>post.content = ''hi'', post.author = 1, imageUrl = None, likes = [], comments = []\<rparr> \<and>
   toggleLike \<lparr>post.content = ''hi'', post.author = 1, imageUrl = None, likes = [], comments = []\<rparr> 7
     = Inr \<lparr>post.content = ''hi'', post.author = 1, imageUrl = None, likes = [7], comments = []\<rparr> \<and>
   length (likes \<lparr>post.content = ''hi'', post.author = 1, imageUrl = None, likes = [7, 7], comments = []\<rparr>) = 2 \<and>
   length (likes \<lparr>post.content = ''hi'', post.author = 1, imageUrl = None, likes = [7], comments = []\<rparr>) = 1"
  by (simp add: toggleLike_def addLike_def removeLike_def Post_save_def PostSchema_validate_def)

text \<open>
  C6, amended. For a stored post whose \<^verbatim>\<open>likes\<close> hold the user at most once, two calls of
  \<^verbatim>\<open>POST /api/posts/:id/like\<close> with that user both succeed; the first inverts the
  liked-state, the second restores it together with the like count, the set of likers and
  every other field; and each answer's \<^verbatim>\<open>isLiked\<close> and \<^verbatim>\<open>likeCount\<close> are those of the post
  the call leaves in the store.
\<close>

theorem C6_toggleLike_twice:
  assumes "PostSchema_validate p" and "db postId = Some p"
    and "length (filter (\<lambda>likeId. likeId = u) (likes p)) \<le> 1"
  shows "\<exists>p1 p2 r1 r2.
           toggleLike_route db postId u = (Inr r1, db(postId \<mapsto> p1)) \<and>
           toggleLike_route (db(postId \<mapsto> p1)) postId u = (Inr r2, db(postId \<mapsto> p2)) \<and>
           toggleLike p u = Inr p1 \<and> toggleLike p1 u = Inr p2 \<and>
           isLiked r1 = isLikedBy p1 u \<and> isLikedBy p1 u = (\<not> isLikedBy p u) \<and>
           likeCount r1 = length (likes p1) \<and>
           isLiked r2 = isLikedBy p2 u \<and> isLikedBy p2 u = isLikedBy p u \<and>
           likeCount r2 = length (likes p2) \<and> length (likes p2) = length (likes p) \<and>
           set (likes p2) = set (likes p) \<and> p2\<lparr>likes := likes p\<rparr> = p"
proof -
  obtain p1 p2 where t: "toggleLike p u = Inr p1" "toggleLike p1 u = Inr p2"
      "isLikedBy p1 u = (\<not> isLikedBy p u)" "isLikedBy p2 u = isLikedBy p u"
      "length (likes p2) = length (likes p)" "set (likes p2) = set (likes p)"
      "p2\<lparr>likes := likes p\<rparr> = p"
    using toggleLike_twice [OF assms(1,3)] by blast
  let ?r1 = "\<lparr>message = (if isLikedBy p1 u then ''Post liked'' else ''Post unliked''),
              likeCount = length (likes p1), isLiked = isLikedBy p1 u\<rparr>"
  let ?r2 = "\<lparr>message = (if isLikedBy p2 u then ''Post liked'' else ''Post unliked''),
              likeCount = length (likes p2), isLiked = isLikedBy p2 u\<rparr>"
  have 1: "toggleLike_route db postId u = (Inr ?r1, db(postId \<mapsto> p1))"
    using assms(2) t(1) by (simp add: toggleLike_route_def)
  have 2: "toggleLike_route (db(postId \<mapsto> p1)) postId u = (Inr ?r2, db(postId \<mapsto> p2))"
    using t(2) by (simp add: toggleLike_route_def)
  show ?thesis
    apply (rule exI [of _ p1])
    apply (rule exI [of _ p2])
    apply (rule exI [of _ ?r1])
    apply (rule exI [of _ ?r2])
    using 1 2 t by simp
qed

theorem C6_toggleLike_twice_witness:
  "PostSchema_validate \<lparr>post.content = ''hi'', post.author = 1, imageUrl = None, likes = [7, 8], comments = []\<rparr> \<and>
   toggleLike \<lparr>post.content = ''hi'', post.author = 1, imageUrl = None, likes = [7, 8], comments = []\<rparr> 7
     = Inr \<lparr>post.content = ''hi'', post.author = 1, imageUrl = None, likes = [8], comments = []\<rparr> \<and>
   toggleLike \<lparr>post.content = ''hi'', post.author = 1, imageUrl = None, likes = [8], comments = []\<rparr> 7
     = Inr \<lparr>post.content = ''hi'', post.author = 1, imageUrl = None, likes = [8, 7], comments = []\<rparr> \<and>
   (\<exists>p1 p2. toggleLike \<lparr>post.content = ''hi'', post.author = 1, imageUrl = None, likes = [7, 8], comments = []\<rparr> 7 = Inr p1 \<and>
      toggleLike p1 7 = Inr p2 \<and> length (likes p2) = 2 \<and> isLikedBy p2 7)"
proof -
  let ?p = "\<lparr>post.content = ''hi'', post.author = 1, imageUrl = None, likes = [7, 8], comments = []\<rparr>"
  have v: "PostSchema_validate ?p" by (simp add: PostSchema_validate_def)
  have d: "(Map.empty((1::nat) \<mapsto> ?p)) 1 = Some ?p" by simp
  have o: "length (filter (\<lambda>likeId. likeId = 7) (likes ?p)) \<le> 1" by simp
  have a: "toggleLike ?p 7 = Inr \<lparr>post.content = ''hi'', post.author = 1, imageUrl = None, likes = [8], comments = []\<rparr>"
    by (simp add: toggleLike_def removeLike_def Post_save_def PostSchema_validate_def)
  have b: "toggleLike \<lparr>post.content = ''hi'', post.author = 1, imageUrl = None, likes = [8], comments = []\<rparr> 7
     = Inr \<lparr>post.content = ''hi'', post.author = 1, imageUrl = None, likes = [8, 7], comments = []\<rparr>"
    by (simp add: toggleLike_def addLike_def Post_save_def PostSchema_validate_def)
  from C6_toggleLike_twice [of ?p "Map.empty((1::nat) \<mapsto> ?p)" 1 7] v d o
  show ?thesis using a b by (auto simp: isLikedBy_def)
qed

section \<open>Properties: marketplace listings\<close>

lemma Listing_save_Inr_iff: "Listing_save l = Inr l' \<longleftrightarrow> l' = l \<and> ListingSchema_validate l"
  by (auto simp: Listing_save_def)

lemma ListingSchema_validate_isAvailable [simp]:
  "ListingSchema_validate (l\<lparr>isAvailable := b\<rparr>) = ListingSchema_validate l"
  by (simp add: ListingSchema_validate_def)

text \<open>
  C10. \<^verbatim>\<open>markAsSold\<close> and \<^verbatim>\<open>markAsAvailable\<close> change nothing of a listing but
  \<^verbatim>\<open>isAvailable\<close>: whenever one of them succeeds, the saved listing is the old one with
  \<^verbatim>\<open>isAvailable\<close> set, so title, description, price, seller, image URLs and category are
  the old ones; both succeed on a stored listing. \<^verbatim>\<open>POST /api/listings/:id/sold\<close> on a
  listing that is already unavailable answers Conflict and leaves the store as it was; on
  an available stored listing it stores that listing with only \<^verbatim>\<open>isAvailable\<close> changed.
\<close>

theorem C10_markAsSold_frame:
  "(\<forall>l'. markAsSold l = Inr l' \<longrightarrow>
      l' = l\<lparr>isAvailable := False\<rparr> \<and>
      listing.title l' = listing.title l \<and> listing.description l' = listing.description l \<and>
      price l' = price l \<and> seller l' = seller l \<and> imageUrls l' = imageUrls l \<and>
      category l' = category l) \<and>
   (\<forall>l'. markAsAvailable l = Inr l' \<longrightarrow>
      l' = l\<lparr>isAvailable := True\<rparr> \<and>
      listing.title l' = listing.title l \<and> listing.description l' = listing.description l \<and>
      price l' = price l \<and> seller l' = seller l \<and> imageUrls l' = imageUrls l \<and>
      category l' = category l) \<and>
   (ListingSchema_validate l \<longrightarrow>
      markAsSold l = Inr (l\<lparr>isAvailable := False\<rparr>) \<and>
      markAsAvailable l = Inr (l\<lparr>isAvailable := True\<rparr>)) \<and>
   (db listingId = Some l \<and> \<not> isAvailable l \<longrightarrow>
      markSold_route db listingId = (Inl Conflict, db)) \<and>
   (db listingId = Some l \<and> isAvailable l \<and> ListingSchema_validate l \<longrightarrow>
      markSold_route db listingId = (Inr False, db(listingId \<mapsto> l\<lparr>isAvailable := False\<rparr>))) \<and>
   (db listingId = Some l \<and> ListingSchema_validate l \<longrightarrow>
      markAvailable_route db listingId = (Inr True, db(listingId \<mapsto> l\<lparr>isAvailable := True\<rparr>)))"
proof -
  have s: "markAsSold l = Inr l' \<longleftrightarrow> l' = l\<lparr>isAvailable := False\<rparr> \<and> ListingSchema_validate l" for l'
    by (simp add: markAsSold_def Listing_save_Inr_iff)
  have a: "markAsAvailable l = Inr l' \<longleftrightarrow> l' = l\<lparr>isAvailable := True\<rparr> \<and> ListingSchema_validate l" for l'
    by (simp add: markAsAvailable_def Listing_save_Inr_iff)
  have r1: "markSold_route db listingId = (Inl Conflict, db)"
    if "db listingId = Some l" "\<not> isAvailable l"
    using that by (simp add: markSold_route_def)
  have r2: "markSold_route db listingId = (Inr False, db(listingId \<mapsto> l\<lparr>isAvailable := False\<rparr>))"
    if "db listingId = Some l" "isAvailable l" "ListingSchema_validate l"
    using that s [of "l\<lparr>isAvailable := False\<rparr>"] by (simp add: markSold_route_def)
  have r3: "markAvailable_route db listingId = (Inr True, db(listingId \<mapsto> l\<lparr>isAvailable := True\<rparr>))"
    if "db listingId = Some l" "ListingSchema_validate l"
    using that a [of "l\<lparr>isAvailable := True\<rparr>"] by (simp add: markAvailable_route_def)
  show ?thesis using s a r1 r2 r3 by simp
qed


theorem C10_markAsSold_frame_witness:
  "ListingSchema_validate
     \<lparr>listing.title = ''Desk'', listing.description = Some ''Oak desk'', price = Num 40, seller = 3,
      imageUrls = [''http://x.io/d.jpg''], category = ''furniture'', isAvailable = True\<rparr> \<and>
   markAsSold
     \<lparr>listing.title = ''Desk'', listing.description = Some ''Oak desk'', price = Num 40, seller = 3,
      imageUrls = [''http://x.io/d.jpg''], category = ''furniture'', isAvailable = True\<rparr>
   = Inr \<lparr>listing.title = ''Desk'', listing.description = Some ''Oak desk'', price = Num 40, seller = 3,
      imageUrls = [''http://x.io/d.jpg''], category = ''furniture'', isAvailable = False\<rparr> \<and>
   markSold_route
     (Map.empty(5 \<mapsto> \<lparr>listing.title = ''Desk'', listing.description = Some ''Oak desk'', price = Num 40,
        seller = 3, imageUrls = [''http://x.io/d.jpg''], category = ''furniture'',
        isAvailable = False\<rparr>)) 5
   = (Inl Conflict,
      Map.empty(5 \<mapsto> \<lparr>listing.title = ''Desk'', listing.description = Some ''Oak desk'', price = Num 40,
        seller = 3, imageUrls = [''http://x.io/d.jpg''], category = ''furniture'',
        isAvailable = False\<rparr>))"
proof -
  let ?l = "\<lparr>listing.title = ''Desk'', listing.description = Some ''Oak desk'', price = Num 40, seller = 3,
      imageUrls = [''http://x.io/d.jpg''], category = ''furniture'', isAvailable = True\<rparr>"
  let ?s = "\<lparr>listing.title = ''Desk'', listing.description = Some ''Oak desk'', price = Num 40, seller = 3,
      imageUrls = [''http://x.io/d.jpg''], category = ''furniture'', isAvailable = False\<rparr>"
  let ?db = "Map.empty((5::nat) \<mapsto> ?s)"
  have u: "image_url_regex ''http://x.io/d.jpg''"
    by (simp add: image_url_regex_def image_url_match_def toLowerCase_char_def
          is_line_terminator_def Let_def)
  have v: "ListingSchema_validate ?l"
    using u by (simp add: ListingSchema_validate_def number_ge_def Number_isFinite_def
          ListingCategory_values_def)
  have "markAsSold ?l = Inr (?l\<lparr>isAvailable := False\<rparr>)"
    by (rule C10_markAsSold_frame [of ?l ?db 5, THEN conjunct2, THEN conjunct2, THEN conjunct1,
          THEN mp, THEN conjunct1]) (rule v)
  then have 1: "markAsSold ?l = Inr ?s" by simp
  have d: "?db 5 = Some ?s \<and> \<not> isAvailable ?s" by simp
  have 2: "markSold_route ?db 5 = (Inl Conflict, ?db)"
    by (rule C10_markAsSold_frame [of ?s ?db 5, THEN conjunct2, THEN conjunct2, THEN conjunct2,
          THEN conjunct1, THEN mp]) (rule d)
  show ?thesis using v 1 2 by (intro conjI)
qed

section \<open>Properties: strings\<close>

lemma dropWhile_keeps_last:
  "ys \<noteq> [] \<Longrightarrow> \<not> P (last ys) \<Longrightarrow> dropWhile P ys \<noteq> [] \<and> last (dropWhile P ys) = last ys"
  by (induction ys) (auto split: if_splits)

lemma dropWhile_hd_id: "xs \<noteq> [] \<Longrightarrow> \<not> P (hd xs) \<Longrightarrow> dropWhile P xs = xs"
  by (cases xs) auto

lemma trim_no_leading_space: "dropWhile is_space (trim s) = trim s"
proof -
  define a where "a = dropWhile is_space s"
  define b where "b = dropWhile is_space (rev a)"
  have t: "trim s = rev b" by (simp add: trim_def a_def b_def)
  show ?thesis
  proof (cases "a = []")
    case True
    then have "b = []" by (simp add: b_def)
    then show ?thesis by (simp add: t)
  next
    case False
    then have h: "\<not> is_space (hd a)" unfolding a_def by (rule hd_dropWhile)
    have "rev a \<noteq> []" "last (rev a) = hd a" using False by (simp_all add: last_rev)
    then have "b \<noteq> [] \<and> last b = hd a"
      unfolding b_def using h dropWhile_keeps_last [of "rev a" is_space] by simp
    then have "rev b \<noteq> []" "\<not> is_space (hd (rev b))" using h by (simp_all add: hd_rev)
    then have "dropWhile is_space (rev b) = rev b" by (rule dropWhile_hd_id)
    then show ?thesis by (simp only: t)
  qed
qed

lemma trim_no_trailing_space: "dropWhile is_space (rev (trim s)) = rev (trim s)"
  by (simp add: trim_def)

lemma trim_trim: "trim (trim s) = trim s"
proof -
  have "trim (trim s) = rev (dropWhile is_space (rev (dropWhile is_space (trim s))))"
    by (simp add: trim_def)
  also have "\<dots> = rev (dropWhile is_space (rev (trim s)))" by (simp only: trim_no_leading_space)
  also have "\<dots> = rev (rev (trim s))" by (simp only: trim_no_trailing_space)
  finally show ?thesis by simp
qed

lemma length_trim_le: "length (trim s) \<le> length s"
proof -
  have "length (trim s) \<le> length (dropWhile is_space s)"
    by (simp add: trim_def) (metis length_dropWhile_le length_rev)
  also have "\<dots> \<le> length s" by (rule length_dropWhile_le)
  finally show ?thesis .
qed

lemma trim_replicate:
  "\<not> is_space c \<Longrightarrow> trim (replicate n c) = replicate n c"
  by (simp add: trim_def)

section \<open>Properties: events\<close>

lemma Event_save_Inr_iff: "Event_save now e = Inr e' \<longleftrightarrow> e' = e \<and> EventSchema_validate now e"
  by (auto simp: Event_save_def)

lemma EventSchema_validate_attendees [simp]:
  "EventSchema_validate now (e\<lparr>attendees := xs\<rparr>) = EventSchema_validate now e"
  by (simp add: EventSchema_validate_def)

lemma EventSchema_validate_times:
  "EventSchema_validate now e \<Longrightarrow> now < startTime e \<and> startTime e < endTime e"
  by (simp add: EventSchema_validate_def EventSchema_startTime_validator_def
        EventSchema_endTime_validator_def)

lemma Event_create_Inr:
  "Event_create now body = Inr e \<Longrightarrow> EventSchema_validate now e"
  by (auto simp: Event_create_def Event_save_Inr_iff split: option.splits)

lemma createEvent_route_Inr:
  "createEvent_route now body = Inr e \<Longrightarrow> EventSchema_validate now e"
  by (auto simp: createEvent_route_def Let_def dest: Event_create_Inr split: if_splits option.splits)

lemma create_event_ordered:
  "(createEvent_route now body = Inr e \<longrightarrow> now < startTime e \<and> startTime e < endTime e) \<and>
   (createEvent_api now body = Inr e \<longrightarrow> now < startTime e \<and> startTime e < endTime e)"
  using createEvent_route_Inr [of now body e] Event_create_Inr [of now body e]
  by (auto simp: createEvent_api_def dest: EventSchema_validate_times)

lemma updateEvent_api_endTime_rejected:
  "upd_endTime upd = Some t \<Longrightarrow> updateEvent_api now db eventId upd = (Inl ValidationError, db)"
  by (simp add: updateEvent_api_def Event_update_validators_def EventSchema_endTime_validator_def)




text \<open>
  C2. \<^verbatim>\<open>PUT /api/events/:id\<close> with the body \<^verbatim>\<open>{startTime: 3000}\<close>, on a stored event that
  starts at 1000 and ends at 2000, at time 500: the update passes the validators (and the
  chain \<^verbatim>\<open>validateUpdateEvent\<close>), since only the new start is validated, and the stored
  event then ends before it starts.
\<close>

theorem C2_update_startTime_breaks_order:
  "EventSchema_validate 500
     \<lparr>event.title = ''Picnic'', event.description = ''Picnic in the park'', locationName = None,
      locationCoords = None, startTime = 1000, endTime = 2000, host = 1, attendees = []\<rparr> \<and>
   validateUpdateEvent
     \<lparr>upd_title = None, upd_description = None, upd_locationName = None, upd_startTime = Some 3000,
      upd_endTime = None, upd_host = None, upd_attendees = None\<rparr> \<and>
   updateEvent_api 500
     (Map.empty(9 \<mapsto> \<lparr>event.title = ''Picnic'', event.description = ''Picnic in the park'',
        locationName = None, locationCoords = None, startTime = 1000, endTime = 2000, host = 1,
        attendees = []\<rparr>)) 9
     \<lparr>upd_title = None, upd_description = None, upd_locationName = None, upd_startTime = Some 3000,
      upd_endTime = None, upd_host = None, upd_attendees = None\<rparr>
   = (Inr \<lparr>event.title = ''Picnic'', event.description = ''Picnic in the park'', locationName = None,
        locationCoords = None, startTime = 3000, endTime = 2000, host = 1, attendees = []\<rparr>,
      Map.empty(9 \<mapsto> \<lparr>event.title = ''Picnic'', event.description = ''Picnic in the park'',
        locationName = None, locationCoords = None, startTime = 3000, endTime = 2000, host = 1,
        attendees = []\<rparr>)) \<and>
   \<not> endTime \<lparr>event.title = ''Picnic'', event.description = ''Picnic in the park'', locationName = None,
        locationCoords = None, startTime = 3000, endTime = 2000, host = 1, attendees = []\<rparr>
     > startTime \<lparr>event.title = ''Picnic'', event.description = ''Picnic in the park'', locationName = None,
        locationCoords = None, startTime = 3000, endTime = 2000, host = 1, attendees = []\<rparr>"
  by (simp add: EventSchema_validate_def EventSchema_startTime_validator_def
        EventSchema_endTime_validator_def validateUpdateEvent_def updateEvent_api_def
        Event_update_validators_def Event_apply_update_def)

lemma Event_update_validators_startTime:
  "Event_update_validators now upd \<longleftrightarrow>
     Event_update_validators now (upd\<lparr>upd_startTime := None\<rparr>) \<and>
     (case upd_startTime upd of None \<Rightarrow> True | Some s \<Rightarrow> now < s)"
  by (auto simp: Event_update_validators_def EventSchema_startTime_validator_def split: option.splits)

lemma Event_update_validators_no_startTime:
  "upd_startTime upd = None \<Longrightarrow> Event_update_validators now upd = Event_update_validators now' upd"
  by (simp add: Event_update_validators_def)

text \<open>
  C9, as the claim states it, fails: at time 5000 an update of an event that started at 1000
  is rejected when it supplies the start 4000, which is in the past, and accepted when it
  supplies the start 6000.
\<close>

theorem C9_update_past_startTime_counterexample:
  "updateEvent_api 5000
     (Map.empty(9 \<mapsto> \<lparr>event.title = ''Picnic'', event.description = ''Picnic in the park'',
        locationName = None, locationCoords = None, startTime = 1000, endTime = 2000, host = 1,
        attendees = []\<rparr>)) 9
     \<lparr>upd_title = None, upd_description = None, upd_locationName = None, upd_startTime = Some 4000,
      upd_endTime = None, upd_host = None, upd_attendees = None\<rparr>
   = (Inl ValidationError,
      Map.empty(9 \<mapsto> \<lparr>event.title = ''Picnic'', event.description = ''Picnic in the park'',
        locationName = None, locationCoords = None, startTime = 1000, endTime = 2000, host = 1,
        attendees = []\<rparr>)) \<and>
   fst (updateEvent_api 5000
     (Map.empty(9 \<mapsto> \<lparr>event.title = ''Picnic'', event.description = ''Picnic in the park'',
        locationName = None, locationCoords = None, startTime = 1000, endTime = 2000, host = 1,
        attendees = []\<rparr>)) 9
     \<lparr>upd_title = None, upd_description = None, upd_locationName = None, upd_startTime = Some 6000,
      upd_endTime = None, upd_host = None, upd_attendees = None\<rparr>)
   = Inr \<lparr>event.title = ''Picnic'', event.description = ''Picnic in the park'',
        locationName = None, locationCoords = None, startTime = 6000, endTime = 2000, host = 1,
        attendees = []\<rparr>"
  by (simp add: updateEvent_api_def Event_update_validators_def EventSchema_startTime_validator_def
        Event_apply_update_def)

text \<open>
  C9, amended. An event is created only with a start in the future, by either router. An
  update that supplies no start is accepted or rejected without regard to the time and to
  the stored start, so an event whose start has passed can still be edited, and keeps its
  start. An update that supplies a start is validated like a creation: it is rejected with
  a ValidationError, the store unchanged, when the new start is not in the future, and
  otherwise accepted exactly when the same update without the start is.
\<close>

theorem C9_startTime_validated_when_supplied:
  assumes "db eventId = Some e"
  shows "(\<forall>ev. createEvent_route now body = Inr ev \<longrightarrow> now < startTime ev) \<and>
         (\<forall>ev. createEvent_api now body = Inr ev \<longrightarrow> now < startTime ev) \<and>
         (upd_startTime upd = None \<and> Event_update_validators now' upd \<longrightarrow>
            updateEvent_api now db eventId upd
              = (Inr (Event_apply_update e upd), db(eventId \<mapsto> Event_apply_update e upd)) \<and>
            startTime (Event_apply_update e upd) = startTime e) \<and>
         (\<forall>s. upd_startTime upd = Some s \<and> s \<le> now \<longrightarrow>
            updateEvent_api now db eventId upd = (Inl ValidationError, db)) \<and>
         (\<forall>s. upd_startTime upd = Some s \<and> now < s \<and>
              Event_update_validators now (upd\<lparr>upd_startTime := None\<rparr>) \<longrightarrow>
            updateEvent_api now db eventId upd
              = (Inr (Event_apply_update e upd), db(eventId \<mapsto> Event_apply_update e upd)) \<and>
            startTime (Event_apply_update e upd) = s)"
proof -
  have c1: "now < startTime ev" if "createEvent_route now body = Inr ev" for ev
    using createEvent_route_Inr [OF that] by (simp add: EventSchema_validate_times)
  have c2: "now < startTime ev" if "createEvent_api now body = Inr ev" for ev
    using Event_create_Inr [of now body ev] that
    by (simp add: createEvent_api_def EventSchema_validate_times)
  have u1: "updateEvent_api now db eventId upd
              = (Inr (Event_apply_update e upd), db(eventId \<mapsto> Event_apply_update e upd)) \<and>
            startTime (Event_apply_update e upd) = startTime e"
    if "upd_startTime upd = None" "Event_update_validators now' upd"
    using that assms Event_update_validators_no_startTime [of upd now now']
    by (simp add: updateEvent_api_def Event_apply_update_def)
  have u2: "updateEvent_api now db eventId upd = (Inl ValidationError, db)"
    if "upd_startTime upd = Some s" "s \<le> now" for s
    using that Event_update_validators_startTime [of now upd]
    by (simp add: updateEvent_api_def)
  have u3: "updateEvent_api now db eventId upd
              = (Inr (Event_apply_update e upd), db(eventId \<mapsto> Event_apply_update e upd)) \<and>
            startTime (Event_apply_update e upd) = s"
    if "upd_startTime upd = Some s" "now < s"
       "Event_update_validators now (upd\<lparr>upd_startTime := None\<rparr>)" for s
    using that assms Event_update_validators_startTime [of now upd]
    by (simp add: updateEvent_api_def Event_apply_update_def)
  show ?thesis using c1 c2 u1 u2 u3 by blast
qed

theorem C9_startTime_validated_when_supplied_witness:
  "updateEvent_api 5000
     (Map.empty(9 \<mapsto> \<lparr>event.title = ''Picnic'', event.description = ''Picnic in the park'',
        locationName = None, locationCoords = None, startTime = 1000, endTime = 2000, host = 1,
        attendees = []\<rparr>)) 9
     \<lparr>upd_title = Some ''Picnic (moved)'', upd_description = None, upd_locationName = None,
      upd_startTime = None, upd_endTime = None, upd_host = None, upd_attendees = None\<rparr>
   = (Inr \<lparr>event.title = ''Picnic (moved)'', event.description = ''Picnic in the park'',
        locationName = None, locationCoords = None, startTime = 1000, endTime = 2000, host = 1,
        attendees = []\<rparr>,
      Map.empty(9 \<mapsto> \<lparr>event.title = ''Picnic (moved)'', event.description = ''Picnic in the park'',
        locationName = None, locationCoords = None, startTime = 1000, endTime = 2000, host = 1,
        attendees = []\<rparr>))"
proof -
  let ?e = "\<lparr>event.title = ''Picnic'', event.description = ''Picnic in the park'',
        locationName = None, locationCoords = None, startTime = 1000, endTime = 2000, host = 1,
        attendees = []\<rparr>"
  let ?db = "Map.empty((9::nat) \<mapsto> ?e)"
  let ?u = "\<lparr>upd_title = Some ''Picnic (moved)'', upd_description = None, upd_locationName = None,
      upd_startTime = None, upd_endTime = None, upd_host = None, upd_attendees = None\<rparr>"
  have t: "trim ''Picnic (moved)'' = ''Picnic (moved)''"
    by (simp add: trim_def is_space_def)
  have d: "?db 9 = Some ?e" by simp
  have h: "upd_startTime ?u = None \<and> Event_update_validators 0 ?u"
    using t by (simp add: Event_update_validators_def)
  have "updateEvent_api 5000 ?db 9 ?u
      = (Inr (Event_apply_update ?e ?u), ?db(9 \<mapsto> Event_apply_update ?e ?u))"
    by (rule C9_startTime_validated_when_supplied [of ?db 9 ?e 5000 _ ?u 0, OF d,
          THEN conjunct2, THEN conjunct2, THEN conjunct1, THEN mp, THEN conjunct1]) (rule h)
  then show ?thesis using t by (simp add: Event_apply_update_def)
qed

lemma Event_create_ok_iff:
  assumes "req_startTime body = Some s" "req_endTime body = Some t" "now < s" "s < t"
    and "req_host body = Some h"
    and "case req_locationName body of None \<Rightarrow> True | Some n \<Rightarrow> length (trim n) \<le> 200"
    and "case req_locationCoords body of None \<Rightarrow> True
         | Some cs \<Rightarrow> EventSchema_coordinates_validator cs"
  shows "(\<exists>ev. Event_create now body = Inr ev) \<longleftrightarrow>
           1 \<le> length (trim (field_string (req_title body))) \<and>
           length (trim (field_string (req_title body))) \<le> 200 \<and>
           1 \<le> length (field_string (req_description body)) \<and>
           length (field_string (req_description body)) \<le> 2000"
  using assms
  by (auto simp: Event_create_def Event_save_def EventSchema_validate_def
        EventSchema_startTime_validator_def EventSchema_endTime_validator_def
        Suc_le_eq split: option.splits)

lemma Event_create_error: "Event_create now body = Inl err \<Longrightarrow> err = ValidationError"
  by (auto simp: Event_create_def Event_save_def split: option.splits if_splits)

lemma createEvent_route_error: "createEvent_route now body = Inl err \<Longrightarrow> err = ValidationError"
  by (auto simp: createEvent_route_def Let_def dest: Event_create_error
        split: option.splits if_splits)

text \<open>
  C8, as the claim states it, fails on the validated router: a title of 150 characters,
  with every other field valid, is rejected by \<^verbatim>\<open>validateCreateEvent\<close> (the schema alone
  accepts the same request), and so is a present description of 5 characters.
\<close>

theorem C8_title_150_rejected_counterexample:
  "length (replicate 150 (CHR ''a'')) = 150 \<and>
   createEvent_route 500
     \<lparr>req_title = Some (replicate 150 (CHR ''a'')), req_description = Some ''Picnic in the park'',
      req_location = Some ''Park'', req_locationName = None, req_locationCoords = None,
      req_startTime = Some 1000, req_endTime = Some 2000, req_host = Some 1, req_attendees = []\<rparr>
   = Inl ValidationError \<and>
   createEvent_api 500
     \<lparr>req_title = Some (replicate 150 (CHR ''a'')), req_description = Some ''Picnic in the park'',
      req_location = Some ''Park'', req_locationName = None, req_locationCoords = None,
      req_startTime = Some 1000, req_endTime = Some 2000, req_host = Some 1, req_attendees = []\<rparr>
   = Inr \<lparr>event.title = replicate 150 (CHR ''a''), event.description = ''Picnic in the park'',
          locationName = None, locationCoords = None, startTime = 1000, endTime = 2000, host = 1,
          attendees = []\<rparr> \<and>
   createEvent_route 500
     \<lparr>req_title = Some ''Picnic'', req_description = Some ''Short'',
      req_location = Some ''Park'', req_locationName = None, req_locationCoords = None,
      req_startTime = Some 1000, req_endTime = Some 2000, req_host = Some 1, req_attendees = []\<rparr>
   = Inl ValidationError"
proof -
  have t: "trim (replicate 150 (CHR ''a'')) = replicate 150 (CHR ''a'')"
    by (rule trim_replicate) (simp add: is_space_def)
  have s: "trim ''Short'' = ''Short''" by (simp add: trim_def is_space_def)
  have 1: "\<not> validateCreateEvent_title (Some (replicate 150 (CHR ''a'')))"
    using t by (simp add: validateCreateEvent_title_def field_string_def)
  have 2: "\<not> validateCreateEvent_description (Some ''Short'')"
    using s by (simp add: validateCreateEvent_description_def field_string_def)
  show ?thesis
    using 1 2 t
    by (simp add: createEvent_route_def validateCreateEvent_def createEvent_api_def
          Event_create_def Event_save_def EventSchema_validate_def field_string_def
          EventSchema_startTime_validator_def EventSchema_endTime_validator_def)
qed

text \<open>
  C8, amended. For a create-event request whose other fields are valid, the validated
  router accepts the request exactly when the trimmed title has 3 to 100 characters and the
  trimmed description 10 to 1000; the schema, which is all the router of \<^verbatim>\<open>src/api\<close>
  checks, accepts it exactly when the trimmed title has 1 to 200 characters and the
  description 1 to 2000. Every rejection is a ValidationError.
\<close>

theorem C8_create_event_length_bounds:
  assumes "req_startTime body = Some s" "req_endTime body = Some t" "now < s" "s < t"
    and "req_host body = Some h"
    and "3 \<le> length (trim (field_string (req_location body)))"
    and "length (trim (field_string (req_location body))) \<le> 200"
    and "case req_locationName body of None \<Rightarrow> True | Some n \<Rightarrow> length (trim n) \<le> 200"
    and "case req_locationCoords body of None \<Rightarrow> True
         | Some cs \<Rightarrow> EventSchema_coordinates_validator cs"
  shows "((\<exists>ev. createEvent_route now body = Inr ev) \<longleftrightarrow>
            3 \<le> length (trim (field_string (req_title body))) \<and>
            length (trim (field_string (req_title body))) \<le> 100 \<and>
            10 \<le> length (trim (field_string (req_description body))) \<and>
            length (trim (field_string (req_description body))) \<le> 1000) \<and>
         ((\<exists>ev. createEvent_api now body = Inr ev) \<longleftrightarrow>
            1 \<le> length (trim (field_string (req_title body))) \<and>
            length (trim (field_string (req_title body))) \<le> 200 \<and>
            1 \<le> length (field_string (req_description body)) \<and>
            length (field_string (req_description body)) \<le> 2000) \<and>
         ((\<exists>ev. createEvent_route now body = Inr ev) \<or>
            createEvent_route now body = Inl ValidationError) \<and>
         ((\<exists>ev. createEvent_api now body = Inr ev) \<or>
            createEvent_api now body = Inl ValidationError)"
proof -
  let ?b = "sanitizeCreateEvent body"
  have v: "validateCreateEvent body \<longleftrightarrow>
      validateCreateEvent_title (req_title body) \<and>
      validateCreateEvent_description (req_description body)"
    using assms by (simp add: validateCreateEvent_def validateDateTimeAfter_def)
  have sb: "req_startTime ?b = Some s" "req_endTime ?b = Some t" "req_host ?b = Some h"
      "req_locationName ?b = req_locationName body"
      "req_locationCoords ?b = req_locationCoords body"
      "field_string (req_title ?b) = trim (field_string (req_title body))"
      "field_string (req_description ?b) = trim (field_string (req_description body))"
    using assms by (simp_all add: sanitizeCreateEvent_def field_string_def)
  have cb: "(\<exists>ev. Event_create now ?b = Inr ev) \<longleftrightarrow>
      1 \<le> length (trim (field_string (req_title ?b))) \<and>
      length (trim (field_string (req_title ?b))) \<le> 200 \<and>
      1 \<le> length (field_string (req_description ?b)) \<and>
      length (field_string (req_description ?b)) \<le> 2000"
    using assms(3,4,8,9) sb(1-5) by (intro Event_create_ok_iff [where s = s and t = t and h = h]) simp_all
  have r: "createEvent_route now body =
      (if validateCreateEvent body then Event_create now ?b else Inl ValidationError)"
    using assms(3) sb(1) by (simp add: createEvent_route_def Let_def)
  have 1: "(\<exists>ev. createEvent_route now body = Inr ev) \<longleftrightarrow>
            3 \<le> length (trim (field_string (req_title body))) \<and>
            length (trim (field_string (req_title body))) \<le> 100 \<and>
            10 \<le> length (trim (field_string (req_description body))) \<and>
            length (trim (field_string (req_description body))) \<le> 1000"
    unfolding r v using cb
    by (auto simp: sb(6,7) trim_trim validateCreateEvent_title_def
          validateCreateEvent_description_def)
  have 2: "(\<exists>ev. createEvent_api now body = Inr ev) \<longleftrightarrow>
            1 \<le> length (trim (field_string (req_title body))) \<and>
            length (trim (field_string (req_title body))) \<le> 200 \<and>
            1 \<le> length (field_string (req_description body)) \<and>
            length (field_string (req_description body)) \<le> 2000"
    unfolding createEvent_api_def
    using assms(1-5,8,9) by (rule Event_create_ok_iff)
  have 3: "(\<exists>ev. createEvent_route now body = Inr ev) \<or>
            createEvent_route now body = Inl ValidationError"
    using createEvent_route_error [of now body] by (cases "createEvent_route now body") auto
  have 4: "(\<exists>ev. createEvent_api now body = Inr ev) \<or>
            createEvent_api now body = Inl ValidationError"
    using Event_create_error [of now body] unfolding createEvent_api_def
    by (cases "Event_create now body") auto
  show ?thesis using 1 2 3 4 by blast
qed

theorem C8_create_event_length_bounds_witness:
  "(\<exists>ev. createEvent_route 500
      \<lparr>req_title = Some ''Picnic'', req_description = Some ''Picnic in the park'',
       req_location = Some ''Park'', req_locationName = None, req_locationCoords = None,
       req_startTime = Some 1000, req_endTime = Some 2000, req_host = Some 1, req_attendees = []\<rparr>
      = Inr ev) \<and>
   (\<exists>ev. createEvent_api 500
      \<lparr>req_title = Some ''Picnic'', req_description = Some ''Picnic in the park'',
       req_location = Some ''Park'', req_locationName = None, req_locationCoords = None,
       req_startTime = Some 1000, req_endTime = Some 2000, req_host = Some 1, req_attendees = []\<rparr>
      = Inr ev)"
proof -
  let ?b = "\<lparr>req_title = Some ''Picnic'', req_description = Some ''Picnic in the park'',
       req_location = Some ''Park'', req_locationName = None, req_locationCoords = None,
       req_startTime = Some 1000, req_endTime = Some 2000, req_host = Some 1, req_attendees = []\<rparr>"
  have t: "trim ''Picnic'' = ''Picnic''" "trim ''Picnic in the park'' = ''Picnic in the park''"
      "trim ''Park'' = ''Park''"
    by (simp_all add: trim_def is_space_def)
  have h: "req_startTime ?b = Some 1000" "req_endTime ?b = Some 2000" "(500::int) < 1000"
      "(1000::int) < 2000" "req_host ?b = Some 1"
      "3 \<le> length (trim (field_string (req_location ?b)))"
      "length (trim (field_string (req_location ?b))) \<le> 200"
      "case req_locationName ?b of None \<Rightarrow> True | Some n \<Rightarrow> length (trim n) \<le> 200"
      "case req_locationCoords ?b of None \<Rightarrow> True
       | Some cs \<Rightarrow> EventSchema_coordinates_validator cs"
    using t by (simp_all add: field_string_def)
  note c = C8_create_event_length_bounds [OF h]
  have 1: "\<exists>ev. createEvent_route 500 ?b = Inr ev"
    using t by (subst c [THEN conjunct1]) (simp add: field_string_def)
  have 2: "\<exists>ev. createEvent_api 500 ?b = Inr ev"
    using t by (subst c [THEN conjunct2, THEN conjunct1]) (simp add: field_string_def)
  show ?thesis using 1 2 by (rule conjI)
qed

end
